theory Spec2Isabelle
  imports Complex_Main "HOL-Library.AList"
begin

section \<open>JavaScript values and the built-ins the pricing code calls\<close>

text \<open>
  The pricing module \<^verbatim>\<open>useNodePricing.ts\<close> reads widget values and evaluator results
  of static type \<^verbatim>\<open>unknown\<close> and inspects them at run time (\<^verbatim>\<open>typeof\<close>,
  \<^verbatim>\<open>Array.isArray\<close>, \<^verbatim>\<open>Number.isFinite\<close>). Such values are modelled by a datatype of
  JSON-like values. A number is a double: a finite one is exactly a rational, the other
  three are \<^verbatim>\<open>Infinity\<close>, \<^verbatim>\<open>-Infinity\<close> and \<^verbatim>\<open>NaN\<close>. A string is a list of
  characters, each read as a code unit in the range U+0000 to U+00FF.
\<close>

datatype number = Finite rat | PosInfinity | NegInfinity | NaN

datatype jsval =
    JUndefined
  | JNull
  | JBool bool
  | JNum number
  | JStr string
  | JArr "jsval list"
  | JObj "(string \<times> jsval) list"

text \<open>\<^verbatim>\<open>Intl.NumberFormatOptions\<close>, as far as \<^verbatim>\<open>DEFAULT_NUMBER_OPTIONS\<close> sets it.\<close>

record NumberFormatOptions =
  minimumFractionDigits :: nat
  maximumFractionDigits :: nat

text \<open>
  What the module calls and does not define: the conversions between doubles and strings
  (\<^verbatim>\<open>Number(t)\<close> on a string, \<^verbatim>\<open>String(n)\<close> on a number), which round,
  \<^verbatim>\<open>JSON.stringify\<close>, and \<^verbatim>\<open>formatCreditsFromUsd\<close>, imported from
  \<^verbatim>\<open>@/base/credits/comfyCredits\<close>. They are parameters of every function below, so
  each theorem holds whatever these four compute. \<^verbatim>\<open>JSON.stringify\<close> throws on a BigInt
  and on a cyclic structure; a \<open>jsval\<close> is neither, so on these values it returns a string.
\<close>

record runtime =
  Number_of_string :: "string \<Rightarrow> number"
  String_of_number :: "number \<Rightarrow> string"
  JSON_stringify :: "jsval \<Rightarrow> string"
  formatCreditsFromUsd :: "number \<Rightarrow> NumberFormatOptions \<Rightarrow> string"

definition isFinite :: "number \<Rightarrow> bool" where
  "isFinite x = (case x of Finite q \<Rightarrow> True | _ \<Rightarrow> False)"

text \<open>\<^verbatim>\<open>typeof v\<close>: null, arrays and objects are all \<^verbatim>\<open>'object'\<close>.\<close>

fun typeof :: "jsval \<Rightarrow> string" where
  "typeof JUndefined = ''undefined''"
| "typeof JNull = ''object''"
| "typeof (JBool b) = ''boolean''"
| "typeof (JNum x) = ''number''"
| "typeof (JStr t) = ''string''"
| "typeof (JArr xs) = ''object''"
| "typeof (JObj ps) = ''object''"

text \<open>Truthiness, as \<^verbatim>\<open>!v\<close> and \<^verbatim>\<open>v ? a : b\<close> read it.\<close>

fun truthy :: "jsval \<Rightarrow> bool" where
  "truthy JUndefined = False"
| "truthy JNull = False"
| "truthy (JBool b) = b"
| "truthy (JNum x) = (case x of Finite q \<Rightarrow> q \<noteq> 0 | NaN \<Rightarrow> False | _ \<Rightarrow> True)"
| "truthy (JStr t) = (t \<noteq> [])"
| "truthy (JArr xs) = True"
| "truthy (JObj ps) = True"

text \<open>\<^verbatim>\<open>v == null\<close>, the test behind \<^verbatim>\<open>??\<close> and \<^verbatim>\<open>?.\<close>.\<close>

fun nullish :: "jsval \<Rightarrow> bool" where
  "nullish JUndefined = True"
| "nullish JNull = True"
| "nullish v = False"

text \<open>\<^verbatim>\<open>Array.prototype.join\<close> on an array of strings.\<close>

fun join :: "string \<Rightarrow> string list \<Rightarrow> string" where
  "join sep [] = []"
| "join sep [x] = x"
| "join sep (x # y # ys) = x @ sep @ join sep (y # ys)"

text \<open>
  The one exception the module's code can raise on these values: the \<^verbatim>\<open>TypeError\<close> of
  a conversion to string. A function that can raise returns a sum, \<open>Inl\<close> the error.
\<close>

datatype js_error = TypeError

definition andThen :: "js_error + 'a \<Rightarrow> ('a \<Rightarrow> js_error + 'b) \<Rightarrow> js_error + 'b" where
  "andThen r f = (case r of Inl e \<Rightarrow> Inl e | Inr v \<Rightarrow> f v)"

text \<open>The results of a list of computations, or the first error among them.\<close>

fun allOrError :: "(js_error + 'a) list \<Rightarrow> js_error + 'a list" where
  "allOrError [] = Inr []"
| "allOrError (r # rs) =
     (case r of
        Inl e \<Rightarrow> Inl e
      | Inr v \<Rightarrow> (case allOrError rs of Inl e \<Rightarrow> Inl e | Inr vs \<Rightarrow> Inr (v # vs)))"

text \<open>
  \<^verbatim>\<open>String(v)\<close>, which is also what a template literal and \<^verbatim>\<open>join\<close> apply to a
  value. An array joins its elements with a comma, null and undefined elements as the
  empty string, and raises what an element raises. An object is converted by its
  \<^verbatim>\<open>toString\<close>: the inherited one gives \<^verbatim>\<open>[object Object]\<close>; an own property of
  that name is a JSON value, not a function, so it is skipped, \<^verbatim>\<open>valueOf\<close> gives no
  primitive either, and the conversion raises \<^verbatim>\<open>TypeError\<close>.
\<close>

fun ToString :: "runtime \<Rightarrow> jsval \<Rightarrow> js_error + string" where
  "ToString rt JUndefined = Inr ''undefined''"
| "ToString rt JNull = Inr ''null''"
| "ToString rt (JBool b) = Inr (if b then ''true'' else ''false'')"
| "ToString rt (JNum x) = Inr (String_of_number rt x)"
| "ToString rt (JStr t) = Inr t"
| "ToString rt (JArr xs) =
     (case allOrError (map (\<lambda>x. if nullish x then Inr [] else ToString rt x) xs) of
        Inl e \<Rightarrow> Inl e
      | Inr parts \<Rightarrow> Inr (join '','' parts))"
| "ToString rt (JObj ps) =
     (if map_of ps ''toString'' \<noteq> None then Inl TypeError else Inr ''[object Object]'')"

text \<open>
  \<^verbatim>\<open>String.prototype.trim\<close> and \<^verbatim>\<open>toLowerCase\<close> on code units up to U+00FF: the
  white space and line terminators there are U+0009 to U+000D, U+0020 and U+00A0; the
  letters with a lower-case form are A to Z and U+00C0 to U+00DE without U+00D7, each 32
  below its lower-case form.
\<close>

definition isWhiteSpace :: "char \<Rightarrow> bool" where
  "isWhiteSpace c = (let k = (of_char c :: nat) in (9 \<le> k \<and> k \<le> 13) \<or> k = 32 \<or> k = 160)"

definition trim :: "string \<Rightarrow> string" where
  "trim t = rev (dropWhile isWhiteSpace (rev (dropWhile isWhiteSpace t)))"

definition lowerChar :: "char \<Rightarrow> char" where
  "lowerChar c =
     (let k = (of_char c :: nat)
      in if (65 \<le> k \<and> k \<le> 90) \<or> (192 \<le> k \<and> k \<le> 222 \<and> k \<noteq> 215)
         then char_of (k + 32) else c)"

definition toLowerCase :: "string \<Rightarrow> string" where
  "toLowerCase t = map lowerChar t"

section \<open>Normalization helpers\<close>

text \<open>
  \<^verbatim>\<open>asFiniteNumber\<close>: null and undefined give null; a number is kept when finite; a
  string is trimmed, the empty string gives null, anything else goes through
  \<^verbatim>\<open>Number\<close> and is kept when finite; booleans, arrays and objects give null.
\<close>

fun asFiniteNumber :: "runtime \<Rightarrow> jsval \<Rightarrow> number option" where
  "asFiniteNumber rt JNull = None"
| "asFiniteNumber rt JUndefined = None"
| "asFiniteNumber rt (JNum x) = (if isFinite x then Some x else None)"
| "asFiniteNumber rt (JStr v) =
     (let t = trim v in
      if t = [] then None
      else let n = Number_of_string rt t in if isFinite n then Some n else None)"
| "asFiniteNumber rt v = None"

record NormalizedWidgetValue =
  nv_raw :: jsval
  nv_s :: string
  nv_n :: "number option"
  nv_b :: "bool option"

text \<open>
  \<^verbatim>\<open>normalizeWidgetValue\<close>. Its first statement converts the raw value with
  \<^verbatim>\<open>String(raw)\<close>, outside any \<^verbatim>\<open>try\<close>: when that raises, the function raises.
\<close>

definition normalizeWidgetValue ::
  "runtime \<Rightarrow> jsval \<Rightarrow> js_error + NormalizedWidgetValue" where
  "normalizeWidgetValue rt raw =
     andThen (if raw = JUndefined \<or> raw = JNull then Inr []
              else andThen (ToString rt raw) (\<lambda>t. Inr (toLowerCase (trim t))))
       (\<lambda>s. let n = asFiniteNumber rt raw;
                b = (case raw of
                       JBool v \<Rightarrow> Some v
                     | JStr v \<Rightarrow>
                         (let ls = toLowerCase (trim v) in
                          if ls = ''true'' then Some True
                          else if ls = ''false'' then Some False
                          else None)
                     | _ \<Rightarrow> None)
            in Inr \<lparr>nv_raw = raw, nv_s = s, nv_n = n, nv_b = b\<rparr>)"

section \<open>Objects: property reads and spread\<close>

text \<open>
  An object is the list of its own enumerable properties in insertion order. The own
  properties of an array are its indices, those of a string its characters under their
  indices; the index keys are written in decimal. Numbers, booleans, null and undefined
  have none.
\<close>

type_synonym props = "(string \<times> jsval) list"

definition digit :: "nat \<Rightarrow> char" where
  "digit d = char_of (48 + d)"

function decimal :: "nat \<Rightarrow> string" where
  "decimal k = (if k < 10 then [digit k] else decimal (k div 10) @ [digit (k mod 10)])"
  by pat_completeness auto
termination
  by (relation "measure (\<lambda>k. k)") auto

declare decimal.simps [simp del]

fun ownProps :: "jsval \<Rightarrow> props" where
  "ownProps (JObj ps) = ps"
| "ownProps (JArr xs) = zip (map decimal [0..<length xs]) xs"
| "ownProps (JStr t) = zip (map decimal [0..<length t]) (map (\<lambda>c. JStr [c]) t)"
| "ownProps v = []"

text \<open>
  A property read \<^verbatim>\<open>r.key\<close> on a value that passed \<^verbatim>\<open>typeof r === 'object'\<close>: an
  object gives the property or undefined, an array its \<^verbatim>\<open>length\<close> or an index. The
  properties inherited from the prototypes are left out: the module reads the names
  \<^verbatim>\<open>type\<close>, \<^verbatim>\<open>text\<close>, \<^verbatim>\<open>usd\<close>, \<^verbatim>\<open>min_usd\<close>, \<^verbatim>\<open>max_usd\<close>, \<^verbatim>\<open>format\<close>,
  \<^verbatim>\<open>suffix\<close>, \<^verbatim>\<open>note\<close>, \<^verbatim>\<open>approximate\<close> and \<^verbatim>\<open>separator\<close>, none of which a
  prototype defines.
\<close>

definition getProp :: "props \<Rightarrow> string \<Rightarrow> jsval" where
  "getProp ps key = (case map_of ps key of None \<Rightarrow> JUndefined | Some v \<Rightarrow> v)"

fun getField :: "jsval \<Rightarrow> string \<Rightarrow> jsval" where
  "getField (JObj ps) key = getProp ps key"
| "getField (JArr xs) key =
     (if key = ''length'' then JNum (Finite (of_nat (length xs)))
      else getProp (ownProps (JArr xs)) key)"
| "getField v key = JUndefined"

text \<open>
  \<^verbatim>\<open>{ ...a, ...b }\<close>: the properties of \<open>a\<close> are assigned to a fresh object in
  order, then those of \<open>b\<close>; assigning an existing key replaces its value in place.
\<close>

definition spreadInto :: "props \<Rightarrow> jsval \<Rightarrow> props" where
  "spreadInto obj v = fold (\<lambda>(key, x) acc. AList.update key x acc) (ownProps v) obj"

section \<open>Credit labels\<close>

text \<open>
  \<^verbatim>\<open>CreditFormatOptions\<close> as the module declares it. A value of this type is, at run
  time, the object holding the fields that are set.
\<close>

record CreditFormatOptions =
  opt_suffix :: "string option"
  opt_note :: "string option"
  opt_approximate :: "bool option"
  opt_separator :: "string option"

definition optionsObject :: "CreditFormatOptions \<Rightarrow> jsval" where
  "optionsObject f =
     JObj ((case opt_suffix f of None \<Rightarrow> [] | Some t \<Rightarrow> [(''suffix'', JStr t)])
         @ (case opt_note f of None \<Rightarrow> [] | Some t \<Rightarrow> [(''note'', JStr t)])
         @ (case opt_approximate f of None \<Rightarrow> [] | Some a \<Rightarrow> [(''approximate'', JBool a)])
         @ (case opt_separator f of None \<Rightarrow> [] | Some t \<Rightarrow> [(''separator'', JStr t)]))"

definition noOptions :: CreditFormatOptions where
  "noOptions = \<lparr>opt_suffix = None, opt_note = None, opt_approximate = None, opt_separator = None\<rparr>"

definition DEFAULT_NUMBER_OPTIONS :: NumberFormatOptions where
  "DEFAULT_NUMBER_OPTIONS = \<lparr>minimumFractionDigits = 0, maximumFractionDigits = 0\<rparr>"

definition formatCreditsValue :: "runtime \<Rightarrow> number \<Rightarrow> string" where
  "formatCreditsValue rt usd = formatCreditsFromUsd rt usd DEFAULT_NUMBER_OPTIONS"

definition makePrefix :: "jsval \<Rightarrow> string" where
  "makePrefix approx = (if truthy approx then ''~'' else [])"

definition makeSuffix :: "jsval \<Rightarrow> jsval" where
  "makeSuffix suff = (if nullish suff then JStr ''/Run'' else suff)"

text \<open>
  \<^verbatim>\<open>appendNote\<close> and the three label builders are template literals: each interpolated
  value is converted to a string, which raises for a suffix, note or separator that
  \<^verbatim>\<open>String\<close> cannot convert.
\<close>

definition appendNote :: "runtime \<Rightarrow> jsval \<Rightarrow> js_error + string" where
  "appendNote rt nt =
     (if truthy nt then andThen (ToString rt nt) (\<lambda>t. Inr ('' '' @ t)) else Inr [])"

text \<open>
  The three label builders take the merged options object and read \<^verbatim>\<open>suffix\<close>,
  \<^verbatim>\<open>note\<close>, \<^verbatim>\<open>approximate\<close> (and \<^verbatim>\<open>separator\<close>) from it by destructuring.
\<close>

definition formatCreditsLabel :: "runtime \<Rightarrow> number \<Rightarrow> props \<Rightarrow> js_error + string" where
  "formatCreditsLabel rt usd fmt =
     andThen (ToString rt (makeSuffix (getProp fmt ''suffix''))) (\<lambda>sfx.
     andThen (appendNote rt (getProp fmt ''note'')) (\<lambda>nt.
       Inr (makePrefix (getProp fmt ''approximate'') @ formatCreditsValue rt usd @ '' credits''
              @ sfx @ nt)))"

definition formatCreditsRangeLabel ::
  "runtime \<Rightarrow> number \<Rightarrow> number \<Rightarrow> props \<Rightarrow> js_error + string" where
  "formatCreditsRangeLabel rt minUsd maxUsd fmt =
     (let mn = formatCreditsValue rt minUsd;
          mx = formatCreditsValue rt maxUsd;
          rangeValue = (if mn = mx then mn else mn @ ''-'' @ mx)
      in andThen (ToString rt (makeSuffix (getProp fmt ''suffix''))) (\<lambda>sfx.
         andThen (appendNote rt (getProp fmt ''note'')) (\<lambda>nt.
           Inr (makePrefix (getProp fmt ''approximate'') @ rangeValue @ '' credits''
                  @ sfx @ nt))))"

definition formatCreditsListLabel ::
  "runtime \<Rightarrow> number list \<Rightarrow> props \<Rightarrow> js_error + string" where
  "formatCreditsListLabel rt usdValues fmt =
     (let parts = map (formatCreditsValue rt) usdValues;
          sep = getProp fmt ''separator''
      in andThen (ToString rt (if nullish sep then JStr ''/'' else sep)) (\<lambda>sepText.
         andThen (ToString rt (makeSuffix (getProp fmt ''suffix''))) (\<lambda>sfx.
         andThen (appendNote rt (getProp fmt ''note'')) (\<lambda>nt.
           Inr (makePrefix (getProp fmt ''approximate'') @ join sepText parts @ '' credits''
                  @ sfx @ nt)))))"

section \<open>Result formatting\<close>

text \<open>
  \<^verbatim>\<open>{ ...defaults, ...(r.format ?? {}) }\<close>, the options a usd, range or list result is
  rendered with.
\<close>

definition mergedFormat :: "CreditFormatOptions \<Rightarrow> jsval \<Rightarrow> props" where
  "mergedFormat defaults r =
     (let f = getField r ''format''
      in spreadInto (spreadInto [] (optionsObject defaults)) (if nullish f then JObj [] else f))"

text \<open>
  \<^verbatim>\<open>formatPricingResult\<close>. The text branch returns the \<^verbatim>\<open>text\<close> property as it is
  unless it is null or undefined, so the value returned is a \<open>jsval\<close>; every other
  branch returns a string, or raises what its label builder raises.
\<close>

definition formatPricingResult ::
  "runtime \<Rightarrow> jsval \<Rightarrow> CreditFormatOptions \<Rightarrow> js_error + jsval" where
  "formatPricingResult rt result defaults =
     (if \<not> truthy result \<or> typeof result \<noteq> ''object'' then Inr (JStr [])
      else if getField result ''type'' = JStr ''text'' then
        (let t = getField result ''text'' in if nullish t then Inr (JStr []) else Inr t)
      else if getField result ''type'' = JStr ''usd'' then
        (case asFiniteNumber rt (getField result ''usd'') of
           None \<Rightarrow> Inr (JStr [])
         | Some usd \<Rightarrow>
             andThen (formatCreditsLabel rt usd (mergedFormat defaults result))
               (\<lambda>label. Inr (JStr label)))
      else if getField result ''type'' = JStr ''range_usd'' then
        (case (asFiniteNumber rt (getField result ''min_usd''),
               asFiniteNumber rt (getField result ''max_usd'')) of
           (Some minUsd, Some maxUsd) \<Rightarrow>
             andThen (formatCreditsRangeLabel rt minUsd maxUsd (mergedFormat defaults result))
               (\<lambda>label. Inr (JStr label))
         | _ \<Rightarrow> Inr (JStr []))
      else if getField result ''type'' = JStr ''list_usd'' then
        (case getField result ''usd'' of
           JArr arr \<Rightarrow>
             (let usdValues = List.map_filter (asFiniteNumber rt) arr
              in if length usdValues = 0 then Inr (JStr [])
                 else andThen (formatCreditsListLabel rt usdValues (mergedFormat defaults result))
                        (\<lambda>label. Inr (JStr label)))
         | _ \<Rightarrow> Inr (JStr []))
      else Inr (JStr []))"

section \<open>Nodes, rules and the evaluation context\<close>

text \<open>
  What the module reads of an \<^verbatim>\<open>LGraphNode\<close>: the \<^verbatim>\<open>nodeData\<close> of its constructor,
  its widgets and its input slots, each list possibly absent. A node is a mutable object
  and the module keys its tables by the object: \<open>node_id\<close> is that identity, the other
  fields are the node as a query finds it.
\<close>

record NodeData =
  nd_name :: "string option"
  api_node :: "bool option"

record IBaseWidget =
  w_name :: string
  w_value :: jsval

record INodeInputSlot =
  slot_name :: string
  slot_link :: "nat option"

record LGraphNode =
  node_id :: nat
  nodeData :: "NodeData option"
  widgets :: "IBaseWidget list option"
  inputs :: "INodeInputSlot list option"

record DependsOn =
  dep_widgets :: "string list"
  dep_inputs :: "string list"

record JsonataPricingRule =
  engine :: string
  depends_on :: DependsOn
  result_defaults :: "CreditFormatOptions option"
  expr :: string

text \<open>
  A compiled rule adds \<^verbatim>\<open>_compiled\<close>: the expression object \<^verbatim>\<open>jsonata(rule.expr)\<close>
  returned, or null when compiling threw. What evaluating it yields is not decided here:
  it is the outcome a settlement event carries.
\<close>

datatype Expression = Expression string

record CompiledJsonataPricingRule = JsonataPricingRule +
  compiled :: "Expression option"

record InputState =
  connected :: bool

record JsonataEvalContext =
  ctx_w :: "string \<rightharpoonup> NormalizedWidgetValue"
  ctx_i :: "string \<rightharpoonup> InputState"

text \<open>\<^verbatim>\<open>node.widgets?.find(x => x?.name === name)?.value\<close>.\<close>

definition widgetValue :: "LGraphNode \<Rightarrow> string \<Rightarrow> jsval" where
  "widgetValue node name =
     (case widgets node of
        None \<Rightarrow> JUndefined
      | Some ws \<Rightarrow>
          (case List.find (\<lambda>x. w_name x = name) ws of
             None \<Rightarrow> JUndefined
           | Some w \<Rightarrow> w_value w))"

text \<open>\<^verbatim>\<open>node.inputs?.find(x => x?.name === name)?.link != null\<close>.\<close>

definition slotConnected :: "LGraphNode \<Rightarrow> string \<Rightarrow> bool" where
  "slotConnected node name =
     (case inputs node of
        None \<Rightarrow> False
      | Some sl \<Rightarrow>
          (case List.find (\<lambda>x. slot_name x = name) sl of
             None \<Rightarrow> False
           | Some slot \<Rightarrow> slot_link slot \<noteq> None))"

text \<open>The first loop of \<^verbatim>\<open>buildJsonataContext\<close>: it stops at the first widget that raises.\<close>

fun normalizeWidgets ::
  "runtime \<Rightarrow> LGraphNode \<Rightarrow> string list \<Rightarrow> (string \<rightharpoonup> NormalizedWidgetValue)
     \<Rightarrow> js_error + (string \<rightharpoonup> NormalizedWidgetValue)" where
  "normalizeWidgets rt node [] w = Inr w"
| "normalizeWidgets rt node (name # names) w =
     (case normalizeWidgetValue rt (widgetValue node name) of
        Inl e \<Rightarrow> Inl e
      | Inr nv \<Rightarrow> normalizeWidgets rt node names (w(name \<mapsto> nv)))"

definition buildJsonataContext ::
  "runtime \<Rightarrow> LGraphNode \<Rightarrow> 'a JsonataPricingRule_scheme \<Rightarrow> js_error + JsonataEvalContext" where
  "buildJsonataContext rt node rule =
     andThen (normalizeWidgets rt node (dep_widgets (depends_on rule)) Map.empty) (\<lambda>w.
       Inr \<lparr>ctx_w = w,
            ctx_i = fold (\<lambda>name i. i(name \<mapsto> \<lparr>connected = slotConnected node name\<rparr>))
                      (dep_inputs (depends_on rule)) Map.empty\<rparr>)"

section \<open>Signature\<close>

text \<open>
  \<^verbatim>\<open>safeValueForSig\<close>: the empty string for null and undefined, \<^verbatim>\<open>String(v)\<close> for a
  string, a number or a boolean, \<^verbatim>\<open>JSON.stringify(v)\<close> for an array or an object. The
  \<^verbatim>\<open>catch\<close> around the last is taken only when \<^verbatim>\<open>JSON.stringify\<close> throws, which it
  does not on these values.
\<close>

fun safeValueForSig :: "runtime \<Rightarrow> jsval \<Rightarrow> string" where
  "safeValueForSig rt JNull = []"
| "safeValueForSig rt JUndefined = []"
| "safeValueForSig rt (JStr t) = t"
| "safeValueForSig rt (JNum x) = String_of_number rt x"
| "safeValueForSig rt (JBool b) = (if b then ''true'' else ''false'')"
| "safeValueForSig rt v = JSON_stringify rt v"

text \<open>\<^verbatim>\<open>ctx.w[name]?.raw\<close> and \<^verbatim>\<open>ctx.i[name]?.connected\<close>.\<close>

definition ctxRaw :: "JsonataEvalContext \<Rightarrow> string \<Rightarrow> jsval" where
  "ctxRaw ctx name = (case ctx_w ctx name of None \<Rightarrow> JUndefined | Some nv \<Rightarrow> nv_raw nv)"

definition ctxConnected :: "JsonataEvalContext \<Rightarrow> string \<Rightarrow> bool" where
  "ctxConnected ctx name = (case ctx_i ctx name of None \<Rightarrow> False | Some st \<Rightarrow> connected st)"

definition widgetPart :: "runtime \<Rightarrow> JsonataEvalContext \<Rightarrow> string \<Rightarrow> string" where
  "widgetPart rt ctx name = ''w:'' @ name @ ''='' @ safeValueForSig rt (ctxRaw ctx name)"

definition inputPart :: "JsonataEvalContext \<Rightarrow> string \<Rightarrow> string" where
  "inputPart ctx name = ''i:'' @ name @ ''='' @ (if ctxConnected ctx name then ''1'' else ''0'')"

definition buildSignature ::
  "runtime \<Rightarrow> JsonataEvalContext \<Rightarrow> 'a JsonataPricingRule_scheme \<Rightarrow> string" where
  "buildSignature rt ctx rule =
     join ''|'' (map (widgetPart rt ctx) (dep_widgets (depends_on rule))
               @ map (inputPart ctx) (dep_inputs (depends_on rule)))"

text \<open>
  The signature of a node under a rule, as \<^verbatim>\<open>getNodeDisplayPrice\<close> computes it: the
  signature of the context built from the node.
\<close>

definition nodeSignature ::
  "runtime \<Rightarrow> LGraphNode \<Rightarrow> 'a JsonataPricingRule_scheme \<Rightarrow> js_error + string" where
  "nodeSignature rt node rule =
     andThen (buildJsonataContext rt node rule) (\<lambda>ctx. Inr (buildSignature rt ctx rule))"

section \<open>Asynchronous evaluation and the cache\<close>

text \<open>
  The module state: the three \<^verbatim>\<open>WeakMap\<close>s keyed by node, the reactive tick, and the
  promises \<^verbatim>\<open>scheduleEvaluation\<close> has created. Each promise is kept with what its
  handlers close over (node, rule, context, signature); the list grows by one at every
  call of \<^verbatim>\<open>rule._compiled.evaluate\<close> and nothing is removed from it, so it is also the
  record of the evaluator's invocations. A promise is named by its position in the list.

  The chain \<^verbatim>\<open>Promise.resolve(...).then(...).catch(...).finally(...)\<close> runs as three jobs,
  one per link, each queued when the link before it has settled; other code, a query
  among it, can run between two of them. \<open>progress\<close> holds, for a promise whose
  evaluation has settled, the last job that ran: \<open>ThenRan failed\<close> after the
  \<^verbatim>\<open>.then\<close> link, \<open>failed\<close> telling whether that link is rejected (the evaluation was
  rejected, or the handler raised), \<open>CatchRan\<close> after the \<^verbatim>\<open>.catch\<close> link,
  \<open>FinallyRan\<close> after the \<^verbatim>\<open>.finally\<close> link.
\<close>

record CacheEntry =
  c_sig :: string
  c_label :: jsval

record InflightEntry =
  i_sig :: string
  i_promise :: nat

record Evaluation =
  ev_node :: nat
  ev_rule :: CompiledJsonataPricingRule
  ev_ctx :: JsonataEvalContext
  ev_sig :: string

datatype stage = ThenRan bool | CatchRan | FinallyRan

record pricing_state =
  cache :: "nat \<rightharpoonup> CacheEntry"
  desiredSig :: "nat \<rightharpoonup> string"
  inflight :: "nat \<rightharpoonup> InflightEntry"
  pricingTick :: nat
  evaluations :: "Evaluation list"
  progress :: "nat \<rightharpoonup> stage"

definition initial_state :: pricing_state where
  "initial_state =
     \<lparr>cache = Map.empty, desiredSig = Map.empty, inflight = Map.empty, pricingTick = 0,
      evaluations = [], progress = Map.empty\<rparr>"

definition inflightHas :: "pricing_state \<Rightarrow> nat \<Rightarrow> string \<Rightarrow> bool" where
  "inflightHas st n sig = (case inflight st n of None \<Rightarrow> False | Some running \<Rightarrow> i_sig running = sig)"

definition scheduleEvaluation ::
  "LGraphNode \<Rightarrow> CompiledJsonataPricingRule \<Rightarrow> JsonataEvalContext \<Rightarrow> string
     \<Rightarrow> pricing_state \<Rightarrow> pricing_state" where
  "scheduleEvaluation node rule ctx sig st =
     (let n = node_id node;
          st1 = st\<lparr>desiredSig := (desiredSig st)(n \<mapsto> sig)\<rparr>
      in if inflightHas st1 n sig then st1
         else if compiled rule = None then st1
         else st1\<lparr>evaluations :=
                    evaluations st1 @ [\<lparr>ev_node = n, ev_rule = rule, ev_ctx = ctx, ev_sig = sig\<rparr>],
                  inflight :=
                    (inflight st1)(n \<mapsto> \<lparr>i_sig = sig, i_promise = length (evaluations st1)\<rparr>)\<rparr>)"

text \<open>
  The promise settles either way: \<^verbatim>\<open>Promise.resolve(...)\<close> makes a returned value a
  fulfilled promise, and JSONata 2.x reports failure by rejecting.
\<close>

datatype outcome = Resolved jsval | Rejected jsval

text \<open>
  The \<^verbatim>\<open>.then\<close> handler. It formats the result first: when that raises, the handler
  raises before it has read or written anything.
\<close>

definition onResolved ::
  "runtime \<Rightarrow> Evaluation \<Rightarrow> jsval \<Rightarrow> pricing_state \<Rightarrow> js_error + pricing_state" where
  "onResolved rt ev res st =
     andThen (formatPricingResult rt res
                (case result_defaults (ev_rule ev) of None \<Rightarrow> noOptions | Some d \<Rightarrow> d))
       (\<lambda>label.
          if desiredSig st (ev_node ev) \<noteq> Some (ev_sig ev) then Inr st
          else Inr (st\<lparr>cache := (cache st)(ev_node ev \<mapsto> \<lparr>c_sig = ev_sig ev, c_label = label\<rparr>)\<rparr>))"

text \<open>The \<^verbatim>\<open>.catch\<close> handler.\<close>

definition onRejected :: "Evaluation \<Rightarrow> pricing_state \<Rightarrow> pricing_state" where
  "onRejected ev st =
     (if desiredSig st (ev_node ev) = Some (ev_sig ev)
      then st\<lparr>cache := (cache st)(ev_node ev \<mapsto> \<lparr>c_sig = ev_sig ev, c_label = JStr []\<rparr>)\<rparr>
      else st)"

text \<open>The \<^verbatim>\<open>.finally\<close> handler.\<close>

definition onFinally :: "Evaluation \<Rightarrow> pricing_state \<Rightarrow> pricing_state" where
  "onFinally ev st =
     (let st1 = (if inflightHas st (ev_node ev) (ev_sig ev)
                 then st\<lparr>inflight := (inflight st)(ev_node ev := None)\<rparr> else st)
      in st1\<lparr>pricingTick := pricingTick st1 + 1\<rparr>)"

text \<open>
  The job of the \<^verbatim>\<open>.then\<close> link, run when the evaluation has settled: the handler for a
  fulfilled evaluation, nothing for a rejected one. It returns whether the link is
  rejected, and the state it leaves.
\<close>

definition thenJob ::
  "runtime \<Rightarrow> Evaluation \<Rightarrow> outcome \<Rightarrow> pricing_state \<Rightarrow> bool \<times> pricing_state" where
  "thenJob rt ev out st =
     (case out of
        Rejected err \<Rightarrow> (True, st)
      | Resolved res \<Rightarrow>
          (case onResolved rt ev res st of Inl e \<Rightarrow> (True, st) | Inr st1 \<Rightarrow> (False, st1)))"

text \<open>
  The job of the \<^verbatim>\<open>.catch\<close> link: the handler when the link before it is rejected,
  nothing otherwise. The handler raises nothing, so the link is fulfilled either way.
\<close>

definition catchJob :: "Evaluation \<Rightarrow> bool \<Rightarrow> pricing_state \<Rightarrow> pricing_state" where
  "catchJob ev failed st = (if failed then onRejected ev st else st)"

type_synonym rules = "string \<rightharpoonup> CompiledJsonataPricingRule"

text \<open>
  \<^verbatim>\<open>getRuleForNode\<close> looks the node's type name up in \<^verbatim>\<open>COMPILED_LOCAL_RULES\<close>. The
  table is a parameter: its rules are JSONata sources, compiled by the library.
\<close>

definition getRuleForNode :: "rules \<Rightarrow> LGraphNode \<Rightarrow> CompiledJsonataPricingRule option" where
  "getRuleForNode table node =
     (let nodeName = (case nodeData node of
                        None \<Rightarrow> []
                      | Some nd \<Rightarrow> (case nd_name nd of None \<Rightarrow> [] | Some t \<Rightarrow> t))
      in table nodeName)"

text \<open>
  \<^verbatim>\<open>getNodeDisplayPrice\<close> returns the label and the state it leaves, or raises what
  \<^verbatim>\<open>buildJsonataContext\<close> raises: there is no \<^verbatim>\<open>try\<close> around it, and nothing has been
  written by then. Reading \<^verbatim>\<open>pricingTick.value\<close> changes nothing.
\<close>

definition getNodeDisplayPrice ::
  "rules \<Rightarrow> runtime \<Rightarrow> LGraphNode \<Rightarrow> pricing_state \<Rightarrow> js_error + jsval \<times> pricing_state" where
  "getNodeDisplayPrice table rt node st =
     (if (case nodeData node of None \<Rightarrow> None | Some nd \<Rightarrow> api_node nd) \<noteq> Some True
      then Inr (JStr [], st)
      else case getRuleForNode table node of
        None \<Rightarrow> Inr (JStr [], st)
      | Some rule \<Rightarrow>
          if engine rule \<noteq> ''jsonata'' then Inr (JStr [], st)
          else if compiled rule = None then Inr (JStr [], st)
          else
            (case buildJsonataContext rt node rule of
               Inl e \<Rightarrow> Inl e
             | Inr ctx \<Rightarrow>
                 (let sig = buildSignature rt ctx rule
                  in case cache st (node_id node) of
                       None \<Rightarrow> Inr (JStr [], scheduleEvaluation node rule ctx sig st)
                     | Some cached \<Rightarrow>
                         if c_sig cached = sig then Inr (c_label cached, st)
                         else Inr (if nullish (c_label cached) then JStr [] else c_label cached,
                                   scheduleEvaluation node rule ctx sig st))))"

section \<open>Runs\<close>

text \<open>
  What happens to the module over time: a query of a node as it then is; the settlement
  of an evaluation with an outcome, upon which the job of its \<^verbatim>\<open>.then\<close> link runs; the
  job of its \<^verbatim>\<open>.catch\<close> link; the job of its \<^verbatim>\<open>.finally\<close> link. The jobs of one promise
  run once each and in this order: an event that names no promise, or a job out of turn,
  changes nothing. A query that raises leaves the state as it was.
\<close>

datatype event = Query LGraphNode | Settle nat outcome | RunCatch nat | RunFinally nat

definition complete :: "runtime \<Rightarrow> nat \<Rightarrow> outcome \<Rightarrow> pricing_state \<Rightarrow> pricing_state" where
  "complete rt k out st =
     (if k < length (evaluations st) \<and> progress st k = None
      then (let (failed, st1) = thenJob rt (evaluations st ! k) out st
            in st1\<lparr>progress := (progress st1)(k \<mapsto> ThenRan failed)\<rparr>)
      else st)"

definition runCatch :: "nat \<Rightarrow> pricing_state \<Rightarrow> pricing_state" where
  "runCatch k st =
     (if k < length (evaluations st) then
        (case progress st k of
           Some (ThenRan failed) \<Rightarrow>
             (catchJob (evaluations st ! k) failed st)\<lparr>progress := (progress st)(k \<mapsto> CatchRan)\<rparr>
         | _ \<Rightarrow> st)
      else st)"

definition runFinally :: "nat \<Rightarrow> pricing_state \<Rightarrow> pricing_state" where
  "runFinally k st =
     (if k < length (evaluations st) then
        (case progress st k of
           Some CatchRan \<Rightarrow>
             (onFinally (evaluations st ! k) st)\<lparr>progress := (progress st)(k \<mapsto> FinallyRan)\<rparr>
         | _ \<Rightarrow> st)
      else st)"

fun step :: "rules \<Rightarrow> runtime \<Rightarrow> event \<Rightarrow> pricing_state \<Rightarrow> pricing_state" where
  "step table rt (Query node) st =
     (case getNodeDisplayPrice table rt node st of Inl e \<Rightarrow> st | Inr (label, st1) \<Rightarrow> st1)"
| "step table rt (Settle k out) st = complete rt k out st"
| "step table rt (RunCatch k) st = runCatch k st"
| "step table rt (RunFinally k) st = runFinally k st"

definition run :: "rules \<Rightarrow> runtime \<Rightarrow> event list \<Rightarrow> pricing_state \<Rightarrow> pricing_state" where
  "run table rt evs st = fold (step table rt) evs st"

text \<open>The three jobs of promise \<open>k\<close>, one after the other, for an evaluation that settles with \<open>out\<close>.\<close>

definition settles :: "nat \<Rightarrow> outcome \<Rightarrow> event list" where
  "settles k out = [Settle k out, RunCatch k, RunFinally k]"



section \<open>Properties of runs\<close>

text \<open>The evaluator's invocations for one node, in order.\<close>

definition evaluationsOf :: "nat \<Rightarrow> pricing_state \<Rightarrow> Evaluation list" where
  "evaluationsOf n st = filter (\<lambda>ev. ev_node ev = n) (evaluations st)"

text \<open>An evaluator that always fails: every evaluation that settles is rejected.\<close>

definition alwaysRejected :: "event list \<Rightarrow> bool" where
  "alwaysRejected evs =
     list_all (\<lambda>e. case e of Settle k (Resolved res) \<Rightarrow> False | _ \<Rightarrow> True) evs"

definition isString :: "jsval \<Rightarrow> bool" where
  "isString v = (case v of JStr t \<Rightarrow> True | _ \<Rightarrow> False)"

text \<open>An invariant of the cache under an evaluator that always fails: every label is empty.\<close>

definition emptyLabels :: "pricing_state \<Rightarrow> bool" where
  "emptyLabels st = (\<forall>n cached. cache st n = Some cached \<longrightarrow> c_label cached = JStr [])"

section \<open>A runtime and inputs for examples\<close>

text \<open>
  A concrete runtime on which the definitions can be run. Its conversions cover unsigned
  decimal integers only, its \<^verbatim>\<open>JSON.stringify\<close> prints every array and object as
  \<^verbatim>\<open>{}\<close>, and its credit formatter
  prints the whole part of the amount at an assumed rate of 211 credits per dollar. The
  general theorems do not depend on it: they hold for every runtime.
\<close>

definition digitsOnly :: "string \<Rightarrow> bool" where
  "digitsOnly t =
     (t \<noteq> [] \<and> list_all (\<lambda>c. 48 \<le> (of_char c :: nat) \<and> (of_char c :: nat) \<le> 57) t)"

definition digitsValue :: "string \<Rightarrow> nat" where
  "digitsValue t = foldl (\<lambda>acc c. 10 * acc + ((of_char c :: nat) - 48)) 0 t"

definition sample_runtime :: runtime where
  "sample_runtime =
     \<lparr>Number_of_string = (\<lambda>t. if digitsOnly t then Finite (of_nat (digitsValue t)) else NaN),
      String_of_number =
        (\<lambda>x. case x of Finite q \<Rightarrow> decimal (nat \<lfloor>q\<rfloor>) | PosInfinity \<Rightarrow> ''Infinity''
                      | NegInfinity \<Rightarrow> ''-Infinity'' | NaN \<Rightarrow> ''NaN''),
      JSON_stringify = (\<lambda>v. ''{}''),
      formatCreditsFromUsd =
        (\<lambda>usd opts. case usd of Finite q \<Rightarrow> decimal (nat \<lfloor>q * 211\<rfloor>) | _ \<Rightarrow> ''NaN'')\<rparr>"

text \<open>
  A rule that depends on one widget and one input, the table that holds it, and a node of
  that type with a given value of the widget and a given link on the input.
\<close>

definition sample_rule :: CompiledJsonataPricingRule where
  "sample_rule =
     \<lparr>engine = ''jsonata'',
      depends_on = \<lparr>dep_widgets = [''model''], dep_inputs = [''image'']\<rparr>,
      result_defaults = None,
      expr = ''$price(w.model.s)'',
      compiled = Some (Expression ''$price(w.model.s)'')\<rparr>"

definition sample_table :: rules where
  "sample_table = [''SampleApiNode'' \<mapsto> sample_rule]"

definition sample_node_linked :: "jsval \<Rightarrow> nat option \<Rightarrow> LGraphNode" where
  "sample_node_linked model link =
     \<lparr>node_id = 7,
      nodeData = Some \<lparr>nd_name = Some ''SampleApiNode'', api_node = Some True\<rparr>,
      widgets = Some [\<lparr>w_name = ''model'', w_value = model\<rparr>],
      inputs = Some [\<lparr>slot_name = ''image'', slot_link = link\<rparr>]\<rparr>"

definition sample_node :: "jsval \<Rightarrow> LGraphNode" where
  "sample_node model = sample_node_linked model None"

text \<open>Two evaluator results, and the module after the sample node was queried once.\<close>

definition usd_result :: "rat \<Rightarrow> jsval" where
  "usd_result q = JObj [(''type'', JStr ''usd''), (''usd'', JNum (Finite q))]"

definition queried_once :: pricing_state where
  "queried_once =
     run sample_table sample_runtime [Query (sample_node (JStr ''a''))] initial_state"

definition queried_twice :: pricing_state where
  "queried_twice =
     run sample_table sample_runtime
       [Query (sample_node (JStr ''a'')), Query (sample_node (JStr ''b''))] initial_state"

text \<open>A node of the sample type whose \<^verbatim>\<open>nodeData\<close> does not set \<^verbatim>\<open>api_node\<close>.\<close>

definition plain_node :: LGraphNode where
  "plain_node =
     \<lparr>node_id = 7,
      nodeData = Some \<lparr>nd_name = Some ''SampleApiNode'', api_node = None\<rparr>,
      widgets = Some [\<lparr>w_name = ''model'', w_value = JStr ''b''\<rparr>],
      inputs = Some [\<lparr>slot_name = ''image'', slot_link = None\<rparr>]\<rparr>"

text \<open>
  The sample node queried with model \<^verbatim>\<open>a\<close>, that evaluation fulfilled and its three
  jobs run, and the node queried again after its model changed to \<^verbatim>\<open>b\<close>: the label of
  \<^verbatim>\<open>a\<close> is cached and the evaluation for \<^verbatim>\<open>b\<close> is pending.
\<close>

definition cached_a_pending_b :: pricing_state where
  "cached_a_pending_b =
     run sample_table sample_runtime
       (Query (sample_node (JStr ''a'')) # settles 0 (Resolved (usd_result (1 / 25)))
        @ [Query (sample_node (JStr ''b''))]) initial_state"


text \<open>
  A usd result whose \<^verbatim>\<open>format\<close> carries a suffix that cannot be converted to a string, and
  a value of the widget that cannot be either: the object \<^verbatim>\<open>{"toString": 1}\<close>.
\<close>

definition unprintable :: jsval where
  "unprintable = JObj [(''toString'', JNum (Finite 1))]"

definition unprintable_result :: jsval where
  "unprintable_result =
     JObj [(''type'', JStr ''usd''), (''usd'', JNum (Finite (1 / 25))),
           (''format'', JObj [(''suffix'', unprintable)])]"

text \<open>
  The sample node queried at \<^verbatim>\<open>a\<close>, at \<^verbatim>\<open>b\<close>, and, after the first evaluation was rejected
  and the job of its \<^verbatim>\<open>.catch\<close> link ran, at \<^verbatim>\<open>a\<close> again; then the job of the \<^verbatim>\<open>.finally\<close>
  link of the first evaluation runs.
\<close>

definition orphaned :: pricing_state where
  "orphaned =
     run sample_table sample_runtime
       [Query (sample_node (JStr ''a'')), Query (sample_node (JStr ''b'')),
        Settle 0 (Rejected JUndefined), RunCatch 0,
        Query (sample_node (JStr ''a'')), RunFinally 0] initial_state"

text \<open>
  A run under an evaluator that always fails: the events that made \<open>orphaned\<close>, and one
  more query of the node, still at \<^verbatim>\<open>a\<close>.
\<close>

definition failing_run :: "event list" where
  "failing_run =
     [Query (sample_node (JStr ''a'')), Query (sample_node (JStr ''b'')),
      Settle 0 (Rejected JUndefined), RunCatch 0,
      Query (sample_node (JStr ''a'')), RunFinally 0,
      Query (sample_node (JStr ''a''))]"

text \<open>A result of type \<^verbatim>\<open>text\<close> whose text is the number 5.\<close>

definition number_text_result :: jsval where
  "number_text_result = JObj [(''type'', JStr ''text''), (''text'', JNum (Finite 5))]"
section \<open>Errors\<close>

lemma only_TypeError: "(e :: js_error) = TypeError"
  by (cases e) simp

lemma andThen_label: "andThen r (\<lambda>label. Inr (JStr label)) = map_sum id JStr r"
  by (cases r) (simp_all add: andThen_def)


section \<open>The value normalizer\<close>

lemma char_of_eq_iff:
  assumes "m < 256"
  shows "char_of (m::nat) = d \<longleftrightarrow> m = of_char d"
proof
  assume "char_of m = d"
  then have "of_char (char_of m) = (of_char d :: nat)" by simp
  then show "m = of_char d" using assms by simp
next
  assume "m = of_char d"
  then show "char_of m = d" by simp
qed

lemma lowerChar_eq_iff:
  "lowerChar c = d \<longleftrightarrow>
     (if (65 \<le> (of_char c :: nat) \<and> (of_char c :: nat) \<le> 90)
         \<or> (192 \<le> (of_char c :: nat) \<and> (of_char c :: nat) \<le> 222 \<and> (of_char c :: nat) \<noteq> 215)
      then (of_char c :: nat) + 32 = of_char d else c = d)"
  unfolding lowerChar_def Let_def
  by (auto simp: char_of_eq_iff)

text \<open>The only characters that lower to an ASCII lower-case letter are the two forms of that letter.\<close>

lemma lowerChar_ascii:
  assumes "97 \<le> (of_char d :: nat)" and "(of_char d :: nat) \<le> 122"
  shows "lowerChar c = d \<longleftrightarrow> c = d \<or> c = char_of ((of_char d :: nat) - 32)"
proof -
  have up: "c = char_of ((of_char d :: nat) - 32) \<longleftrightarrow> (of_char c :: nat) + 32 = of_char d"
  proof
    assume "c = char_of ((of_char d :: nat) - 32)"
    then have "(of_char c :: nat) = (of_char d - 32) mod 256" by simp
    then show "(of_char c :: nat) + 32 = of_char d" using assms by simp
  next
    assume h: "(of_char c :: nat) + 32 = of_char d"
    then have "(of_char d :: nat) - 32 = of_char c" by simp
    then show "c = char_of ((of_char d :: nat) - 32)" by simp
  qed
  show ?thesis
    unfolding lowerChar_eq_iff up using assms by auto
qed


lemma upper_codes:
  "char_of (84::nat) = CHR ''T''" "char_of (82::nat) = CHR ''R''"
  "char_of (85::nat) = CHR ''U''" "char_of (69::nat) = CHR ''E''"
  "char_of (70::nat) = CHR ''F''" "char_of (65::nat) = CHR ''A''"
  "char_of (76::nat) = CHR ''L''" "char_of (83::nat) = CHR ''S''"
  by code_simp+

lemma lower_t: "lowerChar c = CHR ''t'' \<longleftrightarrow> c = CHR ''t'' \<or> c = CHR ''T''"
  using lowerChar_ascii[of "CHR ''t''" c] by (simp add: upper_codes)

lemma lower_r: "lowerChar c = CHR ''r'' \<longleftrightarrow> c = CHR ''r'' \<or> c = CHR ''R''"
  using lowerChar_ascii[of "CHR ''r''" c] by (simp add: upper_codes)

lemma lower_u: "lowerChar c = CHR ''u'' \<longleftrightarrow> c = CHR ''u'' \<or> c = CHR ''U''"
  using lowerChar_ascii[of "CHR ''u''" c] by (simp add: upper_codes)

lemma lower_e: "lowerChar c = CHR ''e'' \<longleftrightarrow> c = CHR ''e'' \<or> c = CHR ''E''"
  using lowerChar_ascii[of "CHR ''e''" c] by (simp add: upper_codes)

lemma lower_a: "lowerChar c = CHR ''a'' \<longleftrightarrow> c = CHR ''a'' \<or> c = CHR ''A''"
  using lowerChar_ascii[of "CHR ''a''" c] by (simp add: upper_codes)

lemma lower_f: "lowerChar c = CHR ''f'' \<longleftrightarrow> c = CHR ''f'' \<or> c = CHR ''F''"
  using lowerChar_ascii[of "CHR ''f''" c] by (simp add: upper_codes)

lemma lower_l: "lowerChar c = CHR ''l'' \<longleftrightarrow> c = CHR ''l'' \<or> c = CHR ''L''"
  using lowerChar_ascii[of "CHR ''l''" c] by (simp add: upper_codes)

lemma lower_s: "lowerChar c = CHR ''s'' \<longleftrightarrow> c = CHR ''s'' \<or> c = CHR ''S''"
  using lowerChar_ascii[of "CHR ''s''" c] by (simp add: upper_codes)

lemmas lower_letters = lower_t lower_r lower_u lower_e lower_a lower_f lower_l lower_s






lemma normalizeWidgetValue_returns:
  "normalizeWidgetValue rt raw = Inr nv \<Longrightarrow>
     nv_raw nv = raw \<and> nv_n nv = asFiniteNumber rt raw
     \<and> nv_b nv = (case raw of
                    JBool v \<Rightarrow> Some v
                  | JStr v \<Rightarrow>
                      (if toLowerCase (trim v) = ''true'' then Some True
                       else if toLowerCase (trim v) = ''false'' then Some False else None)
                  | _ \<Rightarrow> None)"
  by (cases raw) (auto simp: normalizeWidgetValue_def andThen_def Let_def split: sum.splits if_splits)





section \<open>The result formatter\<close>

lemma formatPricingResult_usd:
  assumes "getProp ps ''type'' = JStr ''usd''"
  shows "formatPricingResult rt (JObj ps) d =
           (case asFiniteNumber rt (getProp ps ''usd'') of
              None \<Rightarrow> Inr (JStr [])
            | Some usd \<Rightarrow> map_sum id JStr (formatCreditsLabel rt usd (mergedFormat d (JObj ps))))"
  using assms by (simp add: formatPricingResult_def andThen_label split: option.splits)

lemma formatPricingResult_range:
  assumes "getProp ps ''type'' = JStr ''range_usd''"
  shows "formatPricingResult rt (JObj ps) d =
           (case (asFiniteNumber rt (getProp ps ''min_usd''),
                  asFiniteNumber rt (getProp ps ''max_usd'')) of
              (Some minUsd, Some maxUsd) \<Rightarrow>
                map_sum id JStr (formatCreditsRangeLabel rt minUsd maxUsd (mergedFormat d (JObj ps)))
            | _ \<Rightarrow> Inr (JStr []))"
  using assms by (simp add: formatPricingResult_def andThen_label split: option.splits)

lemma formatPricingResult_list:
  assumes "getProp ps ''type'' = JStr ''list_usd''"
  shows "formatPricingResult rt (JObj ps) d =
           (case getProp ps ''usd'' of
              JArr arr \<Rightarrow>
                (if List.map_filter (asFiniteNumber rt) arr = [] then Inr (JStr [])
                 else map_sum id JStr
                        (formatCreditsListLabel rt (List.map_filter (asFiniteNumber rt) arr)
                           (mergedFormat d (JObj ps))))
            | _ \<Rightarrow> Inr (JStr []))"
  using assms
  by (cases "getProp ps ''usd''") (simp_all add: formatPricingResult_def Let_def andThen_label)

lemma map_filter_empty_iff:
  "List.map_filter f xs = [] \<longleftrightarrow> (\<forall>x \<in> set xs. f x = None)"
  by (induction xs) (auto simp: List.map_filter_simps split: option.splits)

lemma list_label_not_empty: "formatCreditsListLabel rt vs fmt \<noteq> Inr []"
  by (simp add: formatCreditsListLabel_def Let_def andThen_def split: sum.splits)

text \<open>When the label of a list raises: when its separator, its suffix or its note cannot be converted.\<close>

lemma list_label_raises:
  "formatCreditsListLabel rt vs fmt = Inl TypeError \<longleftrightarrow>
     ToString rt (if nullish (getProp fmt ''separator'') then JStr ''/''
                  else getProp fmt ''separator'') = Inl TypeError
     \<or> ToString rt (makeSuffix (getProp fmt ''suffix'')) = Inl TypeError
     \<or> (truthy (getProp fmt ''note'') \<and> ToString rt (getProp fmt ''note'') = Inl TypeError)"
  by (auto simp: formatCreditsListLabel_def appendNote_def Let_def andThen_def only_TypeError
      split: sum.splits)

text \<open>
  C7, as stated, fails for a list: an element that is not a finite number is dropped and
  the remaining amounts are still rendered. And a result whose \<^verbatim>\<open>format\<close> carries a
  separator that cannot be converted to a string makes the formatter raise.
\<close>

theorem list_usd_nan_counterexample:
  "formatPricingResult sample_runtime
     (JObj [(''type'', JStr ''list_usd''), (''usd'', JArr [JNum NaN, JNum (Finite 1)])]) noOptions
   = Inr (JStr ''211 credits/Run'')
   \<and> formatPricingResult sample_runtime
       (JObj [(''type'', JStr ''list_usd''), (''usd'', JArr [JNum NaN, JNum (Finite 1)]),
              (''format'', JObj [(''separator'', JObj [(''toString'', JNum (Finite 1))])])])
       noOptions
     = Inl TypeError"
  by code_simp

text \<open>
  C7 (amended). A numeric field is malformed when \<^verbatim>\<open>asFiniteNumber\<close> gives null for
  it. A usd result with a malformed \<^verbatim>\<open>usd\<close>, and a range result with a malformed
  \<^verbatim>\<open>min_usd\<close> or \<^verbatim>\<open>max_usd\<close>, are returned the empty string for: nothing is raised. A
  list result is returned the empty string for when \<^verbatim>\<open>usd\<close> is not an array or no
  element of it is well-formed. Otherwise the malformed elements are dropped and the
  formatter does what the list label does on the others: it returns a label that is not
  empty, or raises, which it does exactly when the separator, the suffix or the note of
  the merged options cannot be converted to a string.
\<close>

theorem formatPricingResult_malformed:
  "(getProp ps ''type'' = JStr ''usd'' \<and> asFiniteNumber rt (getProp ps ''usd'') = None
      \<longrightarrow> formatPricingResult rt (JObj ps) d = Inr (JStr []))
   \<and> (getProp ps ''type'' = JStr ''range_usd''
        \<and> (asFiniteNumber rt (getProp ps ''min_usd'') = None
            \<or> asFiniteNumber rt (getProp ps ''max_usd'') = None)
      \<longrightarrow> formatPricingResult rt (JObj ps) d = Inr (JStr []))
   \<and> (getProp ps ''type'' = JStr ''list_usd'' \<and> (\<forall>arr. getProp ps ''usd'' \<noteq> JArr arr)
      \<longrightarrow> formatPricingResult rt (JObj ps) d = Inr (JStr []))
   \<and> (getProp ps ''type'' = JStr ''list_usd'' \<and> getProp ps ''usd'' = JArr arr
        \<and> (\<forall>x \<in> set arr. asFiniteNumber rt x = None)
      \<longrightarrow> formatPricingResult rt (JObj ps) d = Inr (JStr []))
   \<and> (getProp ps ''type'' = JStr ''list_usd'' \<and> getProp ps ''usd'' = JArr arr
        \<and> (\<exists>x \<in> set arr. asFiniteNumber rt x \<noteq> None)
      \<longrightarrow> formatPricingResult rt (JObj ps) d =
            map_sum id JStr
              (formatCreditsListLabel rt (List.map_filter (asFiniteNumber rt) arr)
                 (mergedFormat d (JObj ps)))
          \<and> formatPricingResult rt (JObj ps) d \<noteq> Inr (JStr [])
          \<and> (formatPricingResult rt (JObj ps) d = Inl TypeError \<longleftrightarrow>
               ToString rt
                 (if nullish (getProp (mergedFormat d (JObj ps)) ''separator'') then JStr ''/''
                  else getProp (mergedFormat d (JObj ps)) ''separator'') = Inl TypeError
               \<or> ToString rt (makeSuffix (getProp (mergedFormat d (JObj ps)) ''suffix''))
                    = Inl TypeError
               \<or> (truthy (getProp (mergedFormat d (JObj ps)) ''note'')
                   \<and> ToString rt (getProp (mergedFormat d (JObj ps)) ''note'') = Inl TypeError)))"
proof -
  have usd: "getProp ps ''type'' = JStr ''usd'' \<and> asFiniteNumber rt (getProp ps ''usd'') = None
      \<longrightarrow> formatPricingResult rt (JObj ps) d = Inr (JStr [])"
    by (simp add: formatPricingResult_usd)
  have range: "getProp ps ''type'' = JStr ''range_usd''
        \<and> (asFiniteNumber rt (getProp ps ''min_usd'') = None
            \<or> asFiniteNumber rt (getProp ps ''max_usd'') = None)
      \<longrightarrow> formatPricingResult rt (JObj ps) d = Inr (JStr [])"
    by (auto simp: formatPricingResult_range split: option.splits)
  have no_array: "getProp ps ''type'' = JStr ''list_usd'' \<and> (\<forall>arr. getProp ps ''usd'' \<noteq> JArr arr)
      \<longrightarrow> formatPricingResult rt (JObj ps) d = Inr (JStr [])"
    by (cases "getProp ps ''usd''") (simp_all add: formatPricingResult_list)
  have none_ok: "getProp ps ''type'' = JStr ''list_usd'' \<and> getProp ps ''usd'' = JArr arr
        \<and> (\<forall>x \<in> set arr. asFiniteNumber rt x = None)
      \<longrightarrow> formatPricingResult rt (JObj ps) d = Inr (JStr [])"
    by (simp add: formatPricingResult_list map_filter_empty_iff)
  have some_ok: "getProp ps ''type'' = JStr ''list_usd'' \<and> getProp ps ''usd'' = JArr arr
        \<and> (\<exists>x \<in> set arr. asFiniteNumber rt x \<noteq> None)
      \<longrightarrow> formatPricingResult rt (JObj ps) d =
            map_sum id JStr
              (formatCreditsListLabel rt (List.map_filter (asFiniteNumber rt) arr)
                 (mergedFormat d (JObj ps)))
          \<and> formatPricingResult rt (JObj ps) d \<noteq> Inr (JStr [])
          \<and> (formatPricingResult rt (JObj ps) d = Inl TypeError \<longleftrightarrow>
               ToString rt
                 (if nullish (getProp (mergedFormat d (JObj ps)) ''separator'') then JStr ''/''
                  else getProp (mergedFormat d (JObj ps)) ''separator'') = Inl TypeError
               \<or> ToString rt (makeSuffix (getProp (mergedFormat d (JObj ps)) ''suffix''))
                    = Inl TypeError
               \<or> (truthy (getProp (mergedFormat d (JObj ps)) ''note'')
                   \<and> ToString rt (getProp (mergedFormat d (JObj ps)) ''note'') = Inl TypeError))"
  proof (intro impI)
    assume h: "getProp ps ''type'' = JStr ''list_usd'' \<and> getProp ps ''usd'' = JArr arr
        \<and> (\<exists>x \<in> set arr. asFiniteNumber rt x \<noteq> None)"
    then have ne: "List.map_filter (asFiniteNumber rt) arr \<noteq> []"
      by (auto simp: map_filter_empty_iff)
    have eq: "formatPricingResult rt (JObj ps) d =
            map_sum id JStr
              (formatCreditsListLabel rt (List.map_filter (asFiniteNumber rt) arr)
                 (mergedFormat d (JObj ps)))"
      using h ne by (simp add: formatPricingResult_list)
    have nonempty: "formatPricingResult rt (JObj ps) d \<noteq> Inr (JStr [])"
      unfolding eq
      using list_label_not_empty [of rt "List.map_filter (asFiniteNumber rt) arr" "mergedFormat d (JObj ps)"]
      by (cases "formatCreditsListLabel rt (List.map_filter (asFiniteNumber rt) arr)
                   (mergedFormat d (JObj ps))") simp_all
    have raises: "formatPricingResult rt (JObj ps) d = Inl TypeError \<longleftrightarrow>
               formatCreditsListLabel rt (List.map_filter (asFiniteNumber rt) arr)
                 (mergedFormat d (JObj ps)) = Inl TypeError"
      unfolding eq
      by (cases "formatCreditsListLabel rt (List.map_filter (asFiniteNumber rt) arr)
                   (mergedFormat d (JObj ps))") simp_all
    show "formatPricingResult rt (JObj ps) d =
            map_sum id JStr
              (formatCreditsListLabel rt (List.map_filter (asFiniteNumber rt) arr)
                 (mergedFormat d (JObj ps)))
          \<and> formatPricingResult rt (JObj ps) d \<noteq> Inr (JStr [])
          \<and> (formatPricingResult rt (JObj ps) d = Inl TypeError \<longleftrightarrow>
               ToString rt
                 (if nullish (getProp (mergedFormat d (JObj ps)) ''separator'') then JStr ''/''
                  else getProp (mergedFormat d (JObj ps)) ''separator'') = Inl TypeError
               \<or> ToString rt (makeSuffix (getProp (mergedFormat d (JObj ps)) ''suffix''))
                    = Inl TypeError
               \<or> (truthy (getProp (mergedFormat d (JObj ps)) ''note'')
                   \<and> ToString rt (getProp (mergedFormat d (JObj ps)) ''note'') = Inl TypeError))"
      unfolding raises list_label_raises using eq nonempty raises by blast
  qed
  show ?thesis
    by (intro conjI) (fact usd range no_array none_ok some_ok)+
qed

theorem formatPricingResult_malformed_witness:
  "formatPricingResult sample_runtime
     (JObj [(''type'', JStr ''usd''), (''usd'', JNum PosInfinity)]) noOptions = Inr (JStr [])
   \<and> formatPricingResult sample_runtime
     (JObj [(''type'', JStr ''range_usd''), (''min_usd'', JNum (Finite 1)), (''max_usd'', JStr ''x'')])
       noOptions = Inr (JStr [])
   \<and> formatPricingResult sample_runtime
     (JObj [(''type'', JStr ''list_usd''), (''usd'', JNum (Finite 1))]) noOptions = Inr (JStr [])
   \<and> formatPricingResult sample_runtime
     (JObj [(''type'', JStr ''list_usd''), (''usd'', JArr [JNum NaN, JNull])]) noOptions
       = Inr (JStr [])
   \<and> formatPricingResult sample_runtime
     (JObj [(''type'', JStr ''list_usd''), (''usd'', JArr [JNum NaN, JNum (Finite 1)])]) noOptions
       \<noteq> Inr (JStr [])
   \<and> formatPricingResult sample_runtime
     (JObj [(''type'', JStr ''list_usd''), (''usd'', JArr [JNum NaN, JNum (Finite 1)])]) noOptions
       \<noteq> Inl TypeError"
proof -
  have bad: "asFiniteNumber sample_runtime (JStr ''x'') = None"
    by code_simp
  have c1: "formatPricingResult sample_runtime
     (JObj [(''type'', JStr ''usd''), (''usd'', JNum PosInfinity)]) noOptions = Inr (JStr [])"
    using formatPricingResult_malformed
      [of "[(''type'', JStr ''usd''), (''usd'', JNum PosInfinity)]" sample_runtime noOptions "[]",
       THEN conjunct1]
    by (simp add: getProp_def isFinite_def)
  have c2: "formatPricingResult sample_runtime
     (JObj [(''type'', JStr ''range_usd''), (''min_usd'', JNum (Finite 1)), (''max_usd'', JStr ''x'')])
       noOptions = Inr (JStr [])"
    using formatPricingResult_malformed
      [of "[(''type'', JStr ''range_usd''), (''min_usd'', JNum (Finite 1)), (''max_usd'', JStr ''x'')]"
          sample_runtime noOptions "[]", THEN conjunct2, THEN conjunct1] bad
    by (simp add: getProp_def)
  have c3: "formatPricingResult sample_runtime
     (JObj [(''type'', JStr ''list_usd''), (''usd'', JNum (Finite 1))]) noOptions = Inr (JStr [])"
    using formatPricingResult_malformed
      [of "[(''type'', JStr ''list_usd''), (''usd'', JNum (Finite 1))]" sample_runtime noOptions "[]",
       THEN conjunct2, THEN conjunct2, THEN conjunct1]
    by (simp add: getProp_def)
  have c4: "formatPricingResult sample_runtime
     (JObj [(''type'', JStr ''list_usd''), (''usd'', JArr [JNum NaN, JNull])]) noOptions
       = Inr (JStr [])"
    using formatPricingResult_malformed
      [of "[(''type'', JStr ''list_usd''), (''usd'', JArr [JNum NaN, JNull])]" sample_runtime noOptions
          "[JNum NaN, JNull]", THEN conjunct2, THEN conjunct2, THEN conjunct2, THEN conjunct1]
    by (simp add: getProp_def isFinite_def)
  have fmt: "mergedFormat noOptions
               (JObj [(''type'', JStr ''list_usd''), (''usd'', JArr [JNum NaN, JNum (Finite 1)])]) = []"
    by (simp add: mergedFormat_def spreadInto_def noOptions_def optionsObject_def getProp_def)
  have h: "getProp [(''type'', JStr ''list_usd''), (''usd'', JArr [JNum NaN, JNum (Finite 1)])] ''type''
               = JStr ''list_usd''
           \<and> getProp [(''type'', JStr ''list_usd''), (''usd'', JArr [JNum NaN, JNum (Finite 1)])] ''usd''
               = JArr [JNum NaN, JNum (Finite 1)]
           \<and> (\<exists>x \<in> set [JNum NaN, JNum (Finite 1)]. asFiniteNumber sample_runtime x \<noteq> None)"
    by (simp add: getProp_def isFinite_def)
  note last = formatPricingResult_malformed
      [of "[(''type'', JStr ''list_usd''), (''usd'', JArr [JNum NaN, JNum (Finite 1)])]" sample_runtime
          noOptions "[JNum NaN, JNum (Finite 1)]",
       THEN conjunct2, THEN conjunct2, THEN conjunct2, THEN conjunct2, THEN mp, OF h]
  have c5: "formatPricingResult sample_runtime
     (JObj [(''type'', JStr ''list_usd''), (''usd'', JArr [JNum NaN, JNum (Finite 1)])]) noOptions
       \<noteq> Inr (JStr [])"
    by (rule last [THEN conjunct2, THEN conjunct1])
  have c6: "formatPricingResult sample_runtime
     (JObj [(''type'', JStr ''list_usd''), (''usd'', JArr [JNum NaN, JNum (Finite 1)])]) noOptions
       \<noteq> Inl TypeError"
    using last [THEN conjunct2, THEN conjunct2] unfolding fmt
    by (simp add: getProp_def makeSuffix_def)
  show ?thesis
    by (intro conjI) (fact c1 c2 c3 c4 c5 c6)+
qed
section \<open>Labels for a single amount and for a range\<close>

text \<open>What the label builders read from an object of declared type \<^verbatim>\<open>CreditFormatOptions\<close>.\<close>

lemma getProp_options:
  "getProp (ownProps (optionsObject f)) ''approximate'' =
     (case opt_approximate f of None \<Rightarrow> JUndefined | Some a \<Rightarrow> JBool a)"
  "getProp (ownProps (optionsObject f)) ''suffix'' =
     (case opt_suffix f of None \<Rightarrow> JUndefined | Some t \<Rightarrow> JStr t)"
  "getProp (ownProps (optionsObject f)) ''note'' =
     (case opt_note f of None \<Rightarrow> JUndefined | Some t \<Rightarrow> JStr t)"
  "getProp (ownProps (optionsObject f)) ''separator'' =
     (case opt_separator f of None \<Rightarrow> JUndefined | Some t \<Rightarrow> JStr t)"
  by (simp_all add: getProp_def optionsObject_def split: option.splits)

lemma mergedFormat_none:
  "nullish (getProp ps ''format'') \<Longrightarrow> mergedFormat noOptions (JObj ps) = []"
  by (simp add: mergedFormat_def spreadInto_def noOptions_def optionsObject_def)

text \<open>
  C8, as stated, fails for a note that is present and empty: \<^verbatim>\<open>appendNote\<close> tests the
  note for truthiness, so nothing is appended, not even the space.
\<close>

theorem empty_note_counterexample:
  "formatPricingResult sample_runtime
     (JObj [(''type'', JStr ''usd''), (''usd'', JNum (Finite (1 / 25))),
            (''format'', JObj [(''note'', JStr [])])]) noOptions
   = Inr (JStr ''8 credits/Run'')
   \<and> formatCreditsValue sample_runtime (Finite (1 / 25)) @ '' credits'' @ ''/Run'' @ '' '' @ []
       = ''8 credits/Run ''"
  by code_simp

text \<open>
  C8 (amended). For every usd value and every options object of the declared type, the
  label is returned, nothing is raised, and it is prefix, formatted amount,
  \<^verbatim>\<open> credits\<close>, suffix, note: the prefix is \<^verbatim>\<open>~\<close> exactly when \<^verbatim>\<open>approximate\<close> is true
  and empty otherwise; the suffix is \<^verbatim>\<open>/Run\<close> when absent; a note that is present and
  not empty is appended after one space, an absent or empty note adds nothing. A usd
  result of 0.04 with neither defaults nor overrides gives the formatted amount followed
  by \<^verbatim>\<open> credits/Run\<close>.
\<close>

theorem formatCreditsLabel_shape:
  "formatCreditsLabel rt usd (ownProps (optionsObject f)) =
     Inr ((if opt_approximate f = Some True then ''~'' else [])
          @ formatCreditsValue rt usd @ '' credits''
          @ (case opt_suffix f of None \<Rightarrow> ''/Run'' | Some t \<Rightarrow> t)
          @ (case opt_note f of None \<Rightarrow> [] | Some t \<Rightarrow> if t = [] then [] else '' '' @ t))
   \<and> formatPricingResult rt (JObj [(''type'', JStr ''usd''), (''usd'', JNum (Finite (4 / 100)))])
         noOptions
       = Inr (JStr (formatCreditsValue rt (Finite (4 / 100)) @ '' credits/Run''))"
proof -
  have label: "formatCreditsLabel rt usd (ownProps (optionsObject f)) =
     Inr ((if opt_approximate f = Some True then ''~'' else [])
          @ formatCreditsValue rt usd @ '' credits''
          @ (case opt_suffix f of None \<Rightarrow> ''/Run'' | Some t \<Rightarrow> t)
          @ (case opt_note f of None \<Rightarrow> [] | Some t \<Rightarrow> if t = [] then [] else '' '' @ t))"
    unfolding formatCreditsLabel_def getProp_options
    by (simp add: makePrefix_def makeSuffix_def appendNote_def andThen_def split: option.splits)
  have plain: "formatPricingResult rt
                 (JObj [(''type'', JStr ''usd''), (''usd'', JNum (Finite (4 / 100)))]) noOptions
       = Inr (JStr (formatCreditsValue rt (Finite (4 / 100)) @ '' credits/Run''))"
    by (simp add: formatPricingResult_usd mergedFormat_none getProp_def isFinite_def
        formatCreditsLabel_def makePrefix_def makeSuffix_def appendNote_def andThen_def)
  from label plain show ?thesis by (rule conjI)
qed

theorem formatCreditsLabel_shape_witness:
  "formatCreditsLabel sample_runtime (Finite (1 / 25))
     (ownProps (optionsObject
        \<lparr>opt_suffix = Some '' per 1K tokens'', opt_note = Some ''(estimate)'',
         opt_approximate = Some True, opt_separator = None\<rparr>))
   = Inr ''~8 credits per 1K tokens (estimate)''
   \<and> formatPricingResult sample_runtime
        (JObj [(''type'', JStr ''usd''), (''usd'', JNum (Finite (4 / 100)))]) noOptions
      = Inr (JStr ''8 credits/Run'')"
proof -
  have amount: "formatCreditsValue sample_runtime (Finite (1 / 25)) = ''8''"
    "formatCreditsValue sample_runtime (Finite (4 / 100)) = ''8''"
    by code_simp+
  show ?thesis
    using formatCreditsLabel_shape [of sample_runtime "Finite (1 / 25)"
        "\<lparr>opt_suffix = Some '' per 1K tokens'', opt_note = Some ''(estimate)'',
          opt_approximate = Some True, opt_separator = None\<rparr>"]
    by (simp add: amount)
qed

text \<open>What the label of one amount is, and when it raises, for any options object.\<close>

lemma formatCreditsLabel_cases:
  "formatCreditsLabel rt usd fmt =
     (case ToString rt (makeSuffix (getProp fmt ''suffix'')) of
        Inl e \<Rightarrow> Inl TypeError
      | Inr sfx \<Rightarrow>
          (case appendNote rt (getProp fmt ''note'') of
             Inl e \<Rightarrow> Inl TypeError
           | Inr nt \<Rightarrow>
               Inr (makePrefix (getProp fmt ''approximate'') @ formatCreditsValue rt usd
                    @ '' credits'' @ sfx @ nt)))"
  by (simp add: formatCreditsLabel_def andThen_def only_TypeError split: sum.splits)

text \<open>
  C9. A range result whose two bounds are well-formed and format to the same string (as
  they do when the two bounds are the same value) is treated as one amount: what the
  formatter does on it is what it does on the usd result that carries the lower bound and
  the same \<^verbatim>\<open>format\<close>, under the same defaults, and what the label of one amount does on
  the lower bound: both raise (when the suffix or the note of the merged options cannot be
  converted to a string), or both return the same label. The label returned is prefix, the
  one formatted amount, \<^verbatim>\<open> credits\<close>, suffix, note: no second amount and no dash are
  put in.
\<close>

theorem range_collapse:
  assumes "getProp ps ''type'' = JStr ''range_usd''"
    and "asFiniteNumber rt (getProp ps ''min_usd'') = Some x"
    and "asFiniteNumber rt (getProp ps ''max_usd'') = Some y"
    and "formatCreditsValue rt x = formatCreditsValue rt y \<or> getProp ps ''min_usd'' = getProp ps ''max_usd''"
    and "getProp qs ''type'' = JStr ''usd''"
    and "getProp qs ''usd'' = getProp ps ''min_usd''"
    and "getProp qs ''format'' = getProp ps ''format''"
  shows "formatPricingResult rt (JObj ps) d = formatPricingResult rt (JObj qs) d
   \<and> formatPricingResult rt (JObj ps) d =
       map_sum id JStr (formatCreditsLabel rt x (mergedFormat d (JObj ps)))
   \<and> formatPricingResult rt (JObj ps) d =
       (case ToString rt (makeSuffix (getProp (mergedFormat d (JObj ps)) ''suffix'')) of
          Inl e \<Rightarrow> Inl TypeError
        | Inr sfx \<Rightarrow>
            (case appendNote rt (getProp (mergedFormat d (JObj ps)) ''note'') of
               Inl e \<Rightarrow> Inl TypeError
             | Inr nt \<Rightarrow>
                 Inr (JStr (makePrefix (getProp (mergedFormat d (JObj ps)) ''approximate'')
                            @ formatCreditsValue rt x @ '' credits'' @ sfx @ nt))))"
proof -
  have same: "formatCreditsValue rt x = formatCreditsValue rt y"
    using assms(2,3,4) by auto
  have fmt: "mergedFormat d (JObj qs) = mergedFormat d (JObj ps)"
    using assms(7) by (simp add: mergedFormat_def)
  have range: "formatPricingResult rt (JObj ps) d =
                 map_sum id JStr (formatCreditsLabel rt x (mergedFormat d (JObj ps)))"
    using assms(2,3) same
    by (simp add: formatPricingResult_range [OF assms(1)] formatCreditsRangeLabel_def
        formatCreditsLabel_def Let_def)
  have single: "formatPricingResult rt (JObj qs) d =
                  map_sum id JStr (formatCreditsLabel rt x (mergedFormat d (JObj ps)))"
    using assms(2,6) by (simp add: formatPricingResult_usd [OF assms(5)] fmt)
  have shape: "formatPricingResult rt (JObj ps) d =
       (case ToString rt (makeSuffix (getProp (mergedFormat d (JObj ps)) ''suffix'')) of
          Inl e \<Rightarrow> Inl TypeError
        | Inr sfx \<Rightarrow>
            (case appendNote rt (getProp (mergedFormat d (JObj ps)) ''note'') of
               Inl e \<Rightarrow> Inl TypeError
             | Inr nt \<Rightarrow>
                 Inr (JStr (makePrefix (getProp (mergedFormat d (JObj ps)) ''approximate'')
                            @ formatCreditsValue rt x @ '' credits'' @ sfx @ nt))))"
    unfolding range formatCreditsLabel_cases by (simp split: sum.splits)
  from range single shape show ?thesis by simp
qed

theorem range_collapse_witness:
  "formatPricingResult sample_runtime
     (JObj [(''type'', JStr ''range_usd''), (''min_usd'', JNum (Finite (23 / 100))),
            (''max_usd'', JNum (Finite (23 / 100)))]) noOptions
   = formatPricingResult sample_runtime
       (JObj [(''type'', JStr ''usd''), (''usd'', JNum (Finite (23 / 100)))]) noOptions
   \<and> formatPricingResult sample_runtime
     (JObj [(''type'', JStr ''range_usd''), (''min_usd'', JNum (Finite (23 / 100))),
            (''max_usd'', JNum (Finite (23 / 100)))]) noOptions
   = Inr (JStr ''48 credits/Run'')"
proof -
  have amount: "formatCreditsValue sample_runtime (Finite (23 / 100)) = ''48''"
    by code_simp
  have fmt: "mergedFormat noOptions
     (JObj [(''type'', JStr ''range_usd''), (''min_usd'', JNum (Finite (23 / 100))),
            (''max_usd'', JNum (Finite (23 / 100)))]) = []"
    by (simp add: mergedFormat_none getProp_def)
  have h1: "getProp [(''type'', JStr ''range_usd''), (''min_usd'', JNum (Finite (23 / 100))),
            (''max_usd'', JNum (Finite (23 / 100)))] ''type'' = JStr ''range_usd''"
    and h2: "asFiniteNumber sample_runtime
               (getProp [(''type'', JStr ''range_usd''), (''min_usd'', JNum (Finite (23 / 100))),
                         (''max_usd'', JNum (Finite (23 / 100)))] ''min_usd'') = Some (Finite (23 / 100))"
    and h3: "asFiniteNumber sample_runtime
               (getProp [(''type'', JStr ''range_usd''), (''min_usd'', JNum (Finite (23 / 100))),
                         (''max_usd'', JNum (Finite (23 / 100)))] ''max_usd'') = Some (Finite (23 / 100))"
    and h5: "getProp [(''type'', JStr ''usd''), (''usd'', JNum (Finite (23 / 100)))] ''type'' = JStr ''usd''"
    and h6: "getProp [(''type'', JStr ''usd''), (''usd'', JNum (Finite (23 / 100)))] ''usd''
             = getProp [(''type'', JStr ''range_usd''), (''min_usd'', JNum (Finite (23 / 100))),
                        (''max_usd'', JNum (Finite (23 / 100)))] ''min_usd''"
    and h7: "getProp [(''type'', JStr ''usd''), (''usd'', JNum (Finite (23 / 100)))] ''format''
             = getProp [(''type'', JStr ''range_usd''), (''min_usd'', JNum (Finite (23 / 100))),
                        (''max_usd'', JNum (Finite (23 / 100)))] ''format''"
    by (simp_all add: getProp_def isFinite_def)
  have h4: "formatCreditsValue sample_runtime (Finite (23 / 100))
              = formatCreditsValue sample_runtime (Finite (23 / 100))
            \<or> getProp [(''type'', JStr ''range_usd''), (''min_usd'', JNum (Finite (23 / 100))),
                        (''max_usd'', JNum (Finite (23 / 100)))] ''min_usd''
              = getProp [(''type'', JStr ''range_usd''), (''min_usd'', JNum (Finite (23 / 100))),
                        (''max_usd'', JNum (Finite (23 / 100)))] ''max_usd''"
    by simp
  note r = range_collapse [OF h1 h2 h3 h4 h5 h6 h7, of noOptions]
  have c1: "formatPricingResult sample_runtime
     (JObj [(''type'', JStr ''range_usd''), (''min_usd'', JNum (Finite (23 / 100))),
            (''max_usd'', JNum (Finite (23 / 100)))]) noOptions
   = formatPricingResult sample_runtime
       (JObj [(''type'', JStr ''usd''), (''usd'', JNum (Finite (23 / 100)))]) noOptions"
    by (rule r [THEN conjunct1])
  have c2: "formatPricingResult sample_runtime
     (JObj [(''type'', JStr ''range_usd''), (''min_usd'', JNum (Finite (23 / 100))),
            (''max_usd'', JNum (Finite (23 / 100)))]) noOptions
   = Inr (JStr ''48 credits/Run'')"
    using r [THEN conjunct2, THEN conjunct2] unfolding fmt amount
    by (simp add: getProp_def makePrefix_def makeSuffix_def appendNote_def)
  from c1 c2 show ?thesis by (rule conjI)
qed

section \<open>The signature\<close>

lemma length_join:
  "length (join sep xs) = sum_list (map length xs) + (length xs - 1) * length sep"
  by (induction sep xs rule: join.induct) auto

text \<open>Joining is injective on lists whose parts have the same lengths, position by position.\<close>

lemma join_eq_same_lengths:
  assumes "list_all2 (\<lambda>x y. length x = length y) xs ys" and "join sep xs = join sep ys"
  shows "xs = ys"
  using assms
proof (induction rule: list_all2_induct)
  case Nil
  then show ?case by simp
next
  case (Cons x xs y ys)
  show ?case
  proof (cases xs)
    case Nil
    with Cons.hyps have "ys = []" by simp
    with Nil Cons.prems show ?thesis by simp
  next
    case (Cons x' xs')
    with Cons.hyps obtain y' ys' where ys: "ys = y' # ys'"
      by (cases ys) auto
    from Cons.prems Cons ys have "x @ sep @ join sep xs = y @ sep @ join sep ys"
      by simp
    with Cons.hyps(1) have "x = y" and "join sep xs = join sep ys"
      by auto
    with Cons.IH show ?thesis by simp
  qed
qed

lemma sum_list_strict:
  fixes f g :: "'a \<Rightarrow> nat"
  assumes "\<forall>x \<in> set xs. f x \<le> g x" and "\<exists>x \<in> set xs. f x < g x"
  shows "sum_list (map f xs) < sum_list (map g xs)"
  using assms
proof (induction xs)
  case Nil
  then show ?case by simp
next
  case (Cons a xs)
  have le: "sum_list (map f xs) \<le> sum_list (map g xs)"
    using Cons.prems(1) by (intro sum_list_mono) simp
  show ?case
  proof (cases "f a < g a")
    case True
    with le show ?thesis by simp
  next
    case False
    with Cons.prems have "\<exists>x \<in> set xs. f x < g x" and "f a \<le> g a" by auto
    with Cons.IH Cons.prems(1) show ?thesis by simp
  qed
qed

lemma join_shorter:
  assumes "n0 \<in> set ns" and "\<forall>n \<in> set ns. n \<noteq> n0 \<longrightarrow> f n = g n"
    and "length (f n0) < length (g n0)"
  shows "length (join sep (pre @ map f ns @ post)) < length (join sep (pre @ map g ns @ post))"
proof -
  have "\<forall>n \<in> set ns. length (f n) \<le> length (g n)"
    using assms(2,3) by (metis less_or_eq_imp_le)
  moreover have "\<exists>n \<in> set ns. length (f n) < length (g n)"
    using assms(1,3) by blast
  ultimately have "sum_list (map (\<lambda>n. length (f n)) ns) < sum_list (map (\<lambda>n. length (g n)) ns)"
    by (rule sum_list_strict)
  then show ?thesis
    by (simp add: length_join comp_def)
qed

text \<open>
  One name whose part changes while every other part stays: the joined string changes.
  The name may occur several times in the list.
\<close>

lemma join_one_part_differs:
  assumes "n0 \<in> set ns" and same: "\<forall>n \<in> set ns. n \<noteq> n0 \<longrightarrow> f n = g n"
    and "f n0 \<noteq> g n0"
  shows "join sep (pre @ map f ns @ post) \<noteq> join sep (pre @ map g ns @ post)"
proof
  assume eq: "join sep (pre @ map f ns @ post) = join sep (pre @ map g ns @ post)"
  have len: "length (f n0) = length (g n0)"
  proof (rule ccontr)
    assume "length (f n0) \<noteq> length (g n0)"
    then consider "length (f n0) < length (g n0)" | "length (g n0) < length (f n0)"
      by linarith
    then show False
    proof cases
      case 1
      from join_shorter [OF assms(1) same 1, of sep pre post] eq show False by simp
    next
      case 2
      have "\<forall>n \<in> set ns. n \<noteq> n0 \<longrightarrow> g n = f n" using same by simp
      from join_shorter [OF assms(1) this 2, of sep pre post] eq show False by simp
    qed
  qed
  have "list_all2 (\<lambda>x y. length x = length y) (map f ns) (map g ns)"
    using same len by (auto simp: list_all2_conv_all_nth)
  then have "list_all2 (\<lambda>x y. length x = length y) (pre @ map f ns @ post) (pre @ map g ns @ post)"
    by (intro list_all2_appendI) (simp_all add: list_all2_conv_all_nth)
  from join_eq_same_lengths [OF this eq] have "map f ns = map g ns"
    by simp
  with assms(1) have "f n0 = g n0" by simp
  with assms(3) show False by contradiction
qed

lemma fold_upd_lookup:
  "fold (\<lambda>name m. m(name \<mapsto> F name)) ns m0 n = (if n \<in> set ns then Some (F n) else m0 n)"
  by (induction ns arbitrary: m0) auto

lemma normalizeWidgets_raw:
  "normalizeWidgets rt node ns w0 = Inr w \<Longrightarrow>
     map_option nv_raw (w n) =
       (if n \<in> set ns then Some (widgetValue node n) else map_option nv_raw (w0 n))"
proof (induction ns arbitrary: w0)
  case Nil
  then show ?case by simp
next
  case (Cons name names)
  from Cons.prems obtain nv
    where nv: "normalizeWidgetValue rt (widgetValue node name) = Inr nv"
      and rest: "normalizeWidgets rt node names (w0(name \<mapsto> nv)) = Inr w"
    by (auto split: sum.splits)
  have raw: "nv_raw nv = widgetValue node name"
    using normalizeWidgetValue_returns [OF nv] by simp
  from Cons.IH [OF rest] raw show ?case by auto
qed

lemma ctxRaw_build:
  assumes "buildJsonataContext rt node rule = Inr ctx"
  shows "ctxRaw ctx n =
     (if n \<in> set (dep_widgets (depends_on rule)) then widgetValue node n else JUndefined)"
proof -
  from assms obtain w
    where w: "normalizeWidgets rt node (dep_widgets (depends_on rule)) Map.empty = Inr w"
      and ctx: "ctx_w ctx = w"
    by (auto simp: buildJsonataContext_def andThen_def split: sum.splits)
  from normalizeWidgets_raw [OF w, of n] ctx show ?thesis
    by (auto simp: ctxRaw_def split: option.splits if_splits)
qed

lemma ctxConnected_build:
  assumes "buildJsonataContext rt node rule = Inr ctx"
  shows "ctxConnected ctx n = (n \<in> set (dep_inputs (depends_on rule)) \<and> slotConnected node n)"
  using assms
  by (auto simp: ctxConnected_def buildJsonataContext_def andThen_def fold_upd_lookup
      split: sum.splits if_splits)

text \<open>The context is built unless the value of a declared widget cannot be converted to a string.\<close>

lemma normalizeWidgets_returns:
  "(\<exists>w. normalizeWidgets rt node ns w0 = Inr w) \<longleftrightarrow>
     (\<forall>n \<in> set ns. \<exists>nv. normalizeWidgetValue rt (widgetValue node n) = Inr nv)"
  by (induction ns arbitrary: w0) (auto split: sum.splits simp: only_TypeError)

lemma buildJsonataContext_returns:
  "(\<exists>ctx. buildJsonataContext rt node rule = Inr ctx) \<longleftrightarrow>
     (\<forall>n \<in> set (dep_widgets (depends_on rule)).
        \<exists>nv. normalizeWidgetValue rt (widgetValue node n) = Inr nv)"
  unfolding normalizeWidgets_returns [of rt node _ Map.empty, symmetric]
  by (auto simp: buildJsonataContext_def andThen_def split: sum.splits)

lemma buildSignature_cong:
  assumes "\<forall>n \<in> set (dep_widgets (depends_on rule)). ctxRaw c1 n = ctxRaw c2 n"
    and "\<forall>n \<in> set (dep_inputs (depends_on rule)). ctxConnected c1 n = ctxConnected c2 n"
  shows "buildSignature rt c1 rule = buildSignature rt c2 rule"
proof -
  have "map (widgetPart rt c1) (dep_widgets (depends_on rule))
          = map (widgetPart rt c2) (dep_widgets (depends_on rule))"
    using assms(1) by (simp add: widgetPart_def)
  moreover have "map (inputPart c1) (dep_inputs (depends_on rule))
          = map (inputPart c2) (dep_inputs (depends_on rule))"
    using assms(2) by (simp add: inputPart_def)
  ultimately show ?thesis by (simp only: buildSignature_def)
qed

lemma buildSignature_widget_change:
  assumes "name \<in> set (dep_widgets (depends_on rule))"
    and "\<forall>n \<in> set (dep_widgets (depends_on rule)). n \<noteq> name \<longrightarrow> ctxRaw c1 n = ctxRaw c2 n"
    and "\<forall>n \<in> set (dep_inputs (depends_on rule)). ctxConnected c1 n = ctxConnected c2 n"
    and "safeValueForSig rt (ctxRaw c1 name) \<noteq> safeValueForSig rt (ctxRaw c2 name)"
  shows "buildSignature rt c1 rule \<noteq> buildSignature rt c2 rule"
proof -
  have inputs: "map (inputPart c1) (dep_inputs (depends_on rule))
          = map (inputPart c2) (dep_inputs (depends_on rule))"
    using assms(3) by (simp add: inputPart_def)
  have others: "\<forall>n \<in> set (dep_widgets (depends_on rule)).
                  n \<noteq> name \<longrightarrow> widgetPart rt c1 n = widgetPart rt c2 n"
    using assms(2) by (simp add: widgetPart_def)
  have changed: "widgetPart rt c1 name \<noteq> widgetPart rt c2 name"
    using assms(4) by (simp add: widgetPart_def)
  from join_one_part_differs [OF assms(1) others changed, of "''|''" "[]"
      "map (inputPart c2) (dep_inputs (depends_on rule))"]
  show ?thesis unfolding buildSignature_def inputs by simp
qed

lemma buildSignature_input_change:
  assumes "name \<in> set (dep_inputs (depends_on rule))"
    and "\<forall>n \<in> set (dep_widgets (depends_on rule)). ctxRaw c1 n = ctxRaw c2 n"
    and "\<forall>n \<in> set (dep_inputs (depends_on rule)). n \<noteq> name \<longrightarrow> ctxConnected c1 n = ctxConnected c2 n"
    and "ctxConnected c1 name \<noteq> ctxConnected c2 name"
  shows "buildSignature rt c1 rule \<noteq> buildSignature rt c2 rule"
proof -
  have widgets: "map (widgetPart rt c1) (dep_widgets (depends_on rule))
          = map (widgetPart rt c2) (dep_widgets (depends_on rule))"
    using assms(2) by (simp add: widgetPart_def)
  have others: "\<forall>n \<in> set (dep_inputs (depends_on rule)).
                  n \<noteq> name \<longrightarrow> inputPart c1 n = inputPart c2 n"
    using assms(3) by (simp add: inputPart_def)
  have changed: "inputPart c1 name \<noteq> inputPart c2 name"
    using assms(4) by (auto simp: inputPart_def)
  from join_one_part_differs [OF assms(1) others changed, of "''|''"
      "map (widgetPart rt c2) (dep_widgets (depends_on rule))" "[]"]
  show ?thesis unfolding buildSignature_def widgets by simp
qed

text \<open>
  C5, as stated, fails in its second half: the boolean true and the string \<^verbatim>\<open>true\<close> are
  different values of the widget and give the same signature, since both are rendered by
  \<^verbatim>\<open>String\<close>.
\<close>

theorem signature_collision_counterexample:
  "widgetValue (sample_node (JBool True)) ''model'' \<noteq> widgetValue (sample_node (JStr ''true'')) ''model''
   \<and> nodeSignature sample_runtime (sample_node (JBool True)) sample_rule
       = Inr ''w:model=true|i:image=0''
   \<and> nodeSignature sample_runtime (sample_node (JStr ''true'')) sample_rule
       = Inr ''w:model=true|i:image=0''"
  by code_simp

text \<open>
  C5 (amended). Two contexts that agree on the raw value of every declared widget and on
  the connected flag of every declared input have the same signature. When they agree on
  every declared dependency but one, the signatures differ whenever that dependency is
  rendered differently in the signature: for a widget, \<^verbatim>\<open>safeValueForSig\<close> of the two raw
  values differs; for an input, the two connected flags differ.
\<close>

theorem signature_deterministic_and_sensitive:
  "((\<forall>n \<in> set (dep_widgets (depends_on rule)). ctxRaw c1 n = ctxRaw c2 n)
      \<and> (\<forall>n \<in> set (dep_inputs (depends_on rule)). ctxConnected c1 n = ctxConnected c2 n)
     \<longrightarrow> buildSignature rt c1 rule = buildSignature rt c2 rule)
   \<and> (name \<in> set (dep_widgets (depends_on rule))
      \<and> (\<forall>n \<in> set (dep_widgets (depends_on rule)). n \<noteq> name \<longrightarrow> ctxRaw c1 n = ctxRaw c2 n)
      \<and> (\<forall>n \<in> set (dep_inputs (depends_on rule)). ctxConnected c1 n = ctxConnected c2 n)
      \<and> safeValueForSig rt (ctxRaw c1 name) \<noteq> safeValueForSig rt (ctxRaw c2 name)
     \<longrightarrow> buildSignature rt c1 rule \<noteq> buildSignature rt c2 rule)
   \<and> (name \<in> set (dep_inputs (depends_on rule))
      \<and> (\<forall>n \<in> set (dep_widgets (depends_on rule)). ctxRaw c1 n = ctxRaw c2 n)
      \<and> (\<forall>n \<in> set (dep_inputs (depends_on rule)). n \<noteq> name \<longrightarrow> ctxConnected c1 n = ctxConnected c2 n)
      \<and> ctxConnected c1 name \<noteq> ctxConnected c2 name
     \<longrightarrow> buildSignature rt c1 rule \<noteq> buildSignature rt c2 rule)"
  using buildSignature_cong [of rule c1 c2 rt] buildSignature_widget_change [of name rule c1 c2 rt]
    buildSignature_input_change [of name rule c1 c2 rt]
  by blast

theorem signature_deterministic_and_sensitive_witness:
  "\<exists>a b l.
     buildJsonataContext sample_runtime (sample_node (JStr ''a'')) sample_rule = Inr a
     \<and> buildJsonataContext sample_runtime (sample_node (JStr ''b'')) sample_rule = Inr b
     \<and> buildJsonataContext sample_runtime (sample_node_linked (JStr ''a'') (Some 3)) sample_rule = Inr l
     \<and> buildSignature sample_runtime a sample_rule
         = buildSignature sample_runtime
             (a\<lparr>ctx_i := (ctx_i a)(''mask'' \<mapsto> \<lparr>connected = True\<rparr>)\<rparr>) sample_rule
     \<and> buildSignature sample_runtime a sample_rule \<noteq> buildSignature sample_runtime b sample_rule
     \<and> buildSignature sample_runtime a sample_rule \<noteq> buildSignature sample_runtime l sample_rule"
proof -
  have deps: "dep_widgets (depends_on sample_rule) = [''model'']"
    "dep_inputs (depends_on sample_rule) = [''image'']"
    by (simp_all add: sample_rule_def)
  have wvals: "widgetValue (sample_node (JStr ''a'')) ''model'' = JStr ''a''"
    "widgetValue (sample_node (JStr ''b'')) ''model'' = JStr ''b''"
    "widgetValue (sample_node_linked (JStr ''a'') (Some 3)) ''model'' = JStr ''a''"
    by (simp_all add: widgetValue_def sample_node_def sample_node_linked_def)
  have links: "slotConnected (sample_node (JStr ''a'')) ''image'' = False"
    "slotConnected (sample_node (JStr ''b'')) ''image'' = False"
    "slotConnected (sample_node_linked (JStr ''a'') (Some 3)) ''image'' = True"
    by (simp_all add: slotConnected_def sample_node_def sample_node_linked_def)
  obtain a where a: "buildJsonataContext sample_runtime (sample_node (JStr ''a'')) sample_rule = Inr a"
    using buildJsonataContext_returns [of sample_runtime "sample_node (JStr ''a'')" sample_rule]
    by (auto simp: deps wvals normalizeWidgetValue_def andThen_def Let_def)
  obtain b where b: "buildJsonataContext sample_runtime (sample_node (JStr ''b'')) sample_rule = Inr b"
    using buildJsonataContext_returns [of sample_runtime "sample_node (JStr ''b'')" sample_rule]
    by (auto simp: deps wvals normalizeWidgetValue_def andThen_def Let_def)
  obtain l where l: "buildJsonataContext sample_runtime (sample_node_linked (JStr ''a'') (Some 3))
                       sample_rule = Inr l"
    using buildJsonataContext_returns
      [of sample_runtime "sample_node_linked (JStr ''a'') (Some 3)" sample_rule]
    by (auto simp: deps wvals normalizeWidgetValue_def andThen_def Let_def)
  let ?a' = "a\<lparr>ctx_i := (ctx_i a)(''mask'' \<mapsto> \<lparr>connected = True\<rparr>)\<rparr>"
  have raw: "ctxRaw a ''model'' = JStr ''a''" "ctxRaw ?a' ''model'' = JStr ''a''"
    "ctxRaw b ''model'' = JStr ''b''" "ctxRaw l ''model'' = JStr ''a''"
    using ctxRaw_build [OF a, of "''model''"] ctxRaw_build [OF b, of "''model''"]
      ctxRaw_build [OF l, of "''model''"]
    by (simp_all add: deps wvals ctxRaw_def)
  have conn: "ctxConnected a ''image'' = False" "ctxConnected ?a' ''image'' = False"
    "ctxConnected b ''image'' = False" "ctxConnected l ''image'' = True"
    using ctxConnected_build [OF a, of "''image''"] ctxConnected_build [OF b, of "''image''"]
      ctxConnected_build [OF l, of "''image''"]
    by (simp_all add: deps links ctxConnected_def)
  have render: "safeValueForSig sample_runtime (JStr ''a'') \<noteq> safeValueForSig sample_runtime (JStr ''b'')"
    by simp
  have same: "buildSignature sample_runtime a sample_rule = buildSignature sample_runtime ?a' sample_rule"
    using signature_deterministic_and_sensitive [of sample_rule a ?a' sample_runtime "''model''"]
    by (simp only: deps raw conn list.set ball_simps simp_thms)
  have widget: "buildSignature sample_runtime a sample_rule \<noteq> buildSignature sample_runtime b sample_rule"
    using signature_deterministic_and_sensitive [of sample_rule a b sample_runtime "''model''"] render
    by (simp only: deps raw conn list.set ball_simps simp_thms insert_iff empty_iff)
  have input: "buildSignature sample_runtime a sample_rule \<noteq> buildSignature sample_runtime l sample_rule"
    using signature_deterministic_and_sensitive [of sample_rule a l sample_runtime "''image''"]
    by (simp only: deps raw conn list.set ball_simps simp_thms insert_iff empty_iff)
  from a b l same widget input show ?thesis by blast
qed
section \<open>Queries and the jobs of a promise\<close>

lemma scheduleEvaluation_cache [simp]:
  "cache (scheduleEvaluation node rule ctx sig st) = cache st"
  by (simp add: scheduleEvaluation_def Let_def)

lemma scheduleEvaluation_desired [simp]:
  "desiredSig (scheduleEvaluation node rule ctx sig st) = (desiredSig st)(node_id node \<mapsto> sig)"
  by (simp add: scheduleEvaluation_def Let_def)

lemma scheduleEvaluation_progress [simp]:
  "progress (scheduleEvaluation node rule ctx sig st) = progress st"
  by (simp add: scheduleEvaluation_def Let_def)

lemma query_cache:
  "getNodeDisplayPrice table rt node st = Inr (label, st1) \<Longrightarrow> cache st1 = cache st"
  by (auto simp: getNodeDisplayPrice_def Let_def split: option.splits if_splits sum.splits)

lemma query_progress:
  "getNodeDisplayPrice table rt node st = Inr (label, st1) \<Longrightarrow> progress st1 = progress st"
  by (auto simp: getNodeDisplayPrice_def Let_def split: option.splits if_splits sum.splits)

lemma step_query_cache [simp]: "cache (step table rt (Query node) st) = cache st"
  by (auto simp: query_cache split: sum.splits)

lemma step_query_progress [simp]: "progress (step table rt (Query node) st) = progress st"
  by (auto simp: query_progress split: sum.splits)

lemma step_jobs:
  "step table rt (Settle k out) st = complete rt k out st"
  "step table rt (RunCatch k) st = runCatch k st"
  "step table rt (RunFinally k) st = runFinally k st"
  by simp_all

declare step.simps [simp del]

lemma onFinally_cache [simp]: "cache (onFinally ev st) = cache st"
  and onFinally_desired [simp]: "desiredSig (onFinally ev st) = desiredSig st"
  and onFinally_evaluations [simp]: "evaluations (onFinally ev st) = evaluations st"
  and onFinally_progress [simp]: "progress (onFinally ev st) = progress st"
  by (simp_all add: onFinally_def Let_def)

lemma onRejected_desired [simp]: "desiredSig (onRejected ev st) = desiredSig st"
  and onRejected_evaluations [simp]: "evaluations (onRejected ev st) = evaluations st"
  and onRejected_inflight [simp]: "inflight (onRejected ev st) = inflight st"
  and onRejected_progress [simp]: "progress (onRejected ev st) = progress st"
  and onRejected_tick [simp]: "pricingTick (onRejected ev st) = pricingTick st"
  by (simp_all add: onRejected_def)

text \<open>The job of the \<^verbatim>\<open>.then\<close> link touches the cache only.\<close>

lemma thenJob_others [simp]:
  "desiredSig (snd (thenJob rt ev out st)) = desiredSig st"
  "evaluations (snd (thenJob rt ev out st)) = evaluations st"
  "inflight (snd (thenJob rt ev out st)) = inflight st"
  "progress (snd (thenJob rt ev out st)) = progress st"
  "pricingTick (snd (thenJob rt ev out st)) = pricingTick st"
  by (auto simp: thenJob_def onResolved_def andThen_def split: outcome.splits sum.splits if_splits)

lemma thenJob_cache:
  "cache (snd (thenJob rt ev out st)) =
     (case out of
        Rejected err \<Rightarrow> cache st
      | Resolved res \<Rightarrow>
          (case formatPricingResult rt res
                  (case result_defaults (ev_rule ev) of None \<Rightarrow> noOptions | Some d \<Rightarrow> d) of
             Inl e \<Rightarrow> cache st
           | Inr label \<Rightarrow>
               if desiredSig st (ev_node ev) = Some (ev_sig ev)
               then (cache st)(ev_node ev \<mapsto> \<lparr>c_sig = ev_sig ev, c_label = label\<rparr>)
               else cache st))"
  by (auto simp: thenJob_def onResolved_def andThen_def split: outcome.splits sum.splits)

lemma thenJob_failed:
  "fst (thenJob rt ev out st) =
     (case out of
        Rejected err \<Rightarrow> True
      | Resolved res \<Rightarrow>
          (case formatPricingResult rt res
                  (case result_defaults (ev_rule ev) of None \<Rightarrow> noOptions | Some d \<Rightarrow> d) of
             Inl e \<Rightarrow> True
           | Inr label \<Rightarrow> False))"
  by (auto simp: thenJob_def onResolved_def andThen_def split: outcome.splits sum.splits)

lemma complete_unfold:
  "complete rt k out st =
     (if k < length (evaluations st) \<and> progress st k = None
      then (snd (thenJob rt (evaluations st ! k) out st))
             \<lparr>progress := (progress st)(k \<mapsto> ThenRan (fst (thenJob rt (evaluations st ! k) out st)))\<rparr>
      else st)"
  by (simp add: complete_def split_def Let_def)

lemma complete_desired [simp]: "desiredSig (complete rt k out st) = desiredSig st"
  by (simp add: complete_unfold)

lemma complete_cache:
  "cache (complete rt k out st) =
     (if k < length (evaluations st) \<and> progress st k = None
      then cache (snd (thenJob rt (evaluations st ! k) out st)) else cache st)"
  by (simp add: complete_unfold)

lemma runCatch_desired [simp]: "desiredSig (runCatch k st) = desiredSig st"
  by (simp add: runCatch_def catchJob_def split: option.splits stage.splits)

lemma runCatch_cache:
  "cache (runCatch k st) =
     (if k < length (evaluations st) \<and> progress st k = Some (ThenRan True)
         \<and> desiredSig st (ev_node (evaluations st ! k)) = Some (ev_sig (evaluations st ! k))
      then (cache st)(ev_node (evaluations st ! k) \<mapsto>
             \<lparr>c_sig = ev_sig (evaluations st ! k), c_label = JStr []\<rparr>)
      else cache st)"
  by (simp add: runCatch_def catchJob_def onRejected_def split: option.splits stage.splits)

lemma runFinally_cache [simp]: "cache (runFinally k st) = cache st"
  and runFinally_desired [simp]: "desiredSig (runFinally k st) = desiredSig st"
  by (simp_all add: runFinally_def split: option.splits stage.splits)

lemma step_cache_write:
  assumes "cache (step table rt e st) m = Some entry" and "cache (step table rt e st) m \<noteq> cache st m"
  shows "desiredSig st m = Some (c_sig entry) \<and> desiredSig (step table rt e st) m = Some (c_sig entry)"
proof (cases e)
  case (Query node)
  with assms show ?thesis by simp
next
  case (Settle k out)
  with assms show ?thesis
    by (auto simp: step_jobs complete_cache thenJob_cache split: if_splits outcome.splits sum.splits)
next
  case (RunCatch k)
  with assms show ?thesis
    by (auto simp: step_jobs runCatch_cache split: if_splits)
next
  case (RunFinally k)
  with assms show ?thesis by (simp add: step_jobs)
qed

text \<open>
  C1. Let promise \<open>k\<close> have been started for node \<open>n\<close> and signature \<open>S\<close>. When its
  evaluation settles and the job of the \<^verbatim>\<open>.then\<close> link runs: if the desired signature of
  \<open>n\<close> is not \<open>S\<close>, the cache is left as it is, whatever the outcome; if it is \<open>S\<close> and
  the evaluation is fulfilled with a result the formatter returns a label for, the cache
  entry of \<open>n\<close> becomes \<open>S\<close> with that label and no other entry changes, and the link is
  fulfilled. An evaluation that is rejected, or whose result the formatter raises on,
  writes nothing in this job and leaves the link rejected. The job of the \<^verbatim>\<open>.catch\<close> link
  then completes the failed outcome: if the desired signature of \<open>n\<close> is \<open>S\<close> when it
  runs, the cache entry of \<open>n\<close> becomes \<open>S\<close> with the empty label, and if not, the cache
  is left as it is; after a fulfilled link it writes nothing. The job of the
  \<^verbatim>\<open>.finally\<close> link and queries never write the cache. So whenever a step of the module
  writes an entry, the entry's signature is the node's desired signature before and after
  the step.
\<close>

theorem completion_writes_desired_signature_only:
  "(k < length (evaluations st) \<and> evaluations st ! k = ev \<and> progress st k = None
      \<and> desiredSig st (ev_node ev) \<noteq> Some (ev_sig ev)
     \<longrightarrow> cache (complete rt k out st) = cache st)
   \<and> (k < length (evaluations st) \<and> evaluations st ! k = ev \<and> progress st k = None
      \<and> desiredSig st (ev_node ev) = Some (ev_sig ev)
      \<and> formatPricingResult rt res
           (case result_defaults (ev_rule ev) of None \<Rightarrow> noOptions | Some d \<Rightarrow> d) = Inr label
     \<longrightarrow> cache (complete rt k (Resolved res) st) =
           (cache st)(ev_node ev \<mapsto> \<lparr>c_sig = ev_sig ev, c_label = label\<rparr>)
         \<and> progress (complete rt k (Resolved res) st) k = Some (ThenRan False))
   \<and> (k < length (evaluations st) \<and> evaluations st ! k = ev \<and> progress st k = None
      \<and> (out = Rejected err
          \<or> out = Resolved res
             \<and> formatPricingResult rt res
                  (case result_defaults (ev_rule ev) of None \<Rightarrow> noOptions | Some d \<Rightarrow> d)
                = Inl TypeError)
     \<longrightarrow> cache (complete rt k out st) = cache st
         \<and> progress (complete rt k out st) k = Some (ThenRan True))
   \<and> (k < length (evaluations st) \<and> evaluations st ! k = ev \<and> progress st k = Some (ThenRan True)
      \<and> desiredSig st (ev_node ev) = Some (ev_sig ev)
     \<longrightarrow> cache (runCatch k st) =
           (cache st)(ev_node ev \<mapsto> \<lparr>c_sig = ev_sig ev, c_label = JStr []\<rparr>))
   \<and> (k < length (evaluations st) \<and> evaluations st ! k = ev \<and> progress st k = Some (ThenRan True)
      \<and> desiredSig st (ev_node ev) \<noteq> Some (ev_sig ev)
     \<longrightarrow> cache (runCatch k st) = cache st)
   \<and> (progress st k = Some (ThenRan False) \<longrightarrow> cache (runCatch k st) = cache st)
   \<and> cache (runFinally k st) = cache st
   \<and> cache (step table rt (Query node) st) = cache st
   \<and> (cache (step table rt e st) m = Some entry \<and> cache (step table rt e st) m \<noteq> cache st m
     \<longrightarrow> desiredSig st m = Some (c_sig entry)
         \<and> desiredSig (step table rt e st) m = Some (c_sig entry))"
proof -
  have stale: "k < length (evaluations st) \<and> evaluations st ! k = ev \<and> progress st k = None
      \<and> desiredSig st (ev_node ev) \<noteq> Some (ev_sig ev)
     \<longrightarrow> cache (complete rt k out st) = cache st"
    by (auto simp: complete_cache thenJob_cache split: outcome.splits sum.splits)
  have fresh: "k < length (evaluations st) \<and> evaluations st ! k = ev \<and> progress st k = None
      \<and> desiredSig st (ev_node ev) = Some (ev_sig ev)
      \<and> formatPricingResult rt res
           (case result_defaults (ev_rule ev) of None \<Rightarrow> noOptions | Some d \<Rightarrow> d) = Inr label
     \<longrightarrow> cache (complete rt k (Resolved res) st) =
           (cache st)(ev_node ev \<mapsto> \<lparr>c_sig = ev_sig ev, c_label = label\<rparr>)
         \<and> progress (complete rt k (Resolved res) st) k = Some (ThenRan False)"
    by (auto simp: complete_cache thenJob_cache complete_unfold thenJob_failed)
  have failed: "k < length (evaluations st) \<and> evaluations st ! k = ev \<and> progress st k = None
      \<and> (out = Rejected err
          \<or> out = Resolved res
             \<and> formatPricingResult rt res
                  (case result_defaults (ev_rule ev) of None \<Rightarrow> noOptions | Some d \<Rightarrow> d)
                = Inl TypeError)
     \<longrightarrow> cache (complete rt k out st) = cache st
         \<and> progress (complete rt k out st) k = Some (ThenRan True)"
    by (auto simp: complete_cache thenJob_cache complete_unfold thenJob_failed)
  have caught: "k < length (evaluations st) \<and> evaluations st ! k = ev
      \<and> progress st k = Some (ThenRan True)
      \<and> desiredSig st (ev_node ev) = Some (ev_sig ev)
     \<longrightarrow> cache (runCatch k st) =
           (cache st)(ev_node ev \<mapsto> \<lparr>c_sig = ev_sig ev, c_label = JStr []\<rparr>)"
    by (auto simp: runCatch_cache)
  have caught_stale: "k < length (evaluations st) \<and> evaluations st ! k = ev
      \<and> progress st k = Some (ThenRan True)
      \<and> desiredSig st (ev_node ev) \<noteq> Some (ev_sig ev)
     \<longrightarrow> cache (runCatch k st) = cache st"
    by (auto simp: runCatch_cache)
  have passed: "progress st k = Some (ThenRan False) \<longrightarrow> cache (runCatch k st) = cache st"
    by (simp add: runCatch_cache)
  have final: "cache (runFinally k st) = cache st"
    by simp
  have query: "cache (step table rt (Query node) st) = cache st"
    by simp
  have written: "cache (step table rt e st) m = Some entry \<and> cache (step table rt e st) m \<noteq> cache st m
     \<longrightarrow> desiredSig st m = Some (c_sig entry)
         \<and> desiredSig (step table rt e st) m = Some (c_sig entry)"
    using step_cache_write [of table rt e st m entry] by blast
  show ?thesis
    by (intro conjI) (fact stale fresh failed caught caught_stale passed final query written)+
qed

theorem completion_writes_desired_signature_only_witness:
  "cache (complete sample_runtime 0 (Resolved (usd_result (1 / 25))) queried_twice) 7 = None
   \<and> cache (complete sample_runtime 0 (Resolved (usd_result (1 / 25))) queried_once) 7
       = Some \<lparr>c_sig = ''w:model=a|i:image=0'', c_label = JStr ''8 credits/Run''\<rparr>
   \<and> cache (complete sample_runtime 0 (Rejected JUndefined) queried_once) 7 = None
   \<and> progress (complete sample_runtime 0 (Rejected JUndefined) queried_once) 0 = Some (ThenRan True)
   \<and> cache (complete sample_runtime 0 (Resolved unprintable_result) queried_once) 7 = None
   \<and> progress (complete sample_runtime 0 (Resolved unprintable_result) queried_once) 0
       = Some (ThenRan True)
   \<and> cache (runCatch 0 (complete sample_runtime 0 (Resolved unprintable_result) queried_once)) 7
       = Some \<lparr>c_sig = ''w:model=a|i:image=0'', c_label = JStr []\<rparr>
   \<and> cache (runCatch 0 (complete sample_runtime 0 (Rejected JUndefined) queried_twice)) 7 = None
   \<and> cache (runCatch 0 (complete sample_runtime 0 (Resolved (usd_result (1 / 25))) queried_once)) 7
       = Some \<lparr>c_sig = ''w:model=a|i:image=0'', c_label = JStr ''8 credits/Run''\<rparr>
   \<and> desiredSig queried_once 7 = Some ''w:model=a|i:image=0''"
proof -
  let ?ev = "evaluations queried_once ! 0"
  let ?good = "usd_result (1 / 25)"
  let ?wrote = "\<lparr>c_sig = ''w:model=a|i:image=0'', c_label = JStr ''8 credits/Run''\<rparr>"
  have once: "evaluations queried_once \<noteq> []" "progress queried_once 0 = None"
    "ev_node ?ev = 7" "ev_sig ?ev = ''w:model=a|i:image=0''"
    "result_defaults (ev_rule ?ev) = None"
    "desiredSig queried_once 7 = Some ''w:model=a|i:image=0''"
    "cache queried_once 7 = None"
    by code_simp+
  have twice: "evaluations queried_twice \<noteq> []" "progress queried_twice 0 = None"
    "ev_node (evaluations queried_twice ! 0) = 7"
    "ev_sig (evaluations queried_twice ! 0) = ''w:model=a|i:image=0''"
    "desiredSig queried_twice 7 = Some ''w:model=b|i:image=0''"
    "cache queried_twice 7 = None"
    by code_simp+
  have label: "formatPricingResult sample_runtime ?good noOptions = Inr (JStr ''8 credits/Run'')"
    and raised: "formatPricingResult sample_runtime unprintable_result noOptions = Inl TypeError"
    by code_simp+
  note tl = conjunct2

  have h1: "0 < length (evaluations queried_twice)
      \<and> evaluations queried_twice ! 0 = evaluations queried_twice ! 0
      \<and> progress queried_twice 0 = None
      \<and> desiredSig queried_twice (ev_node (evaluations queried_twice ! 0))
          \<noteq> Some (ev_sig (evaluations queried_twice ! 0))"
    by (simp add: twice)
  note s1 = completion_writes_desired_signature_only
    [where k = 0 and st = queried_twice and ev = "evaluations queried_twice ! 0"
       and rt = sample_runtime and out = "Resolved ?good", THEN conjunct1, THEN mp, OF h1]
  have c1: "cache (complete sample_runtime 0 (Resolved ?good) queried_twice) 7 = None"
    unfolding s1 by (fact twice(6))

  have h2: "0 < length (evaluations queried_once) \<and> evaluations queried_once ! 0 = ?ev
      \<and> progress queried_once 0 = None
      \<and> desiredSig queried_once (ev_node ?ev) = Some (ev_sig ?ev)
      \<and> formatPricingResult sample_runtime ?good
           (case result_defaults (ev_rule ?ev) of None \<Rightarrow> noOptions | Some d \<Rightarrow> d)
          = Inr (JStr ''8 credits/Run'')"
    by (simp add: once label)
  note s2 = completion_writes_desired_signature_only
    [where k = 0 and st = queried_once and ev = ?ev and rt = sample_runtime and res = ?good
       and label = "JStr ''8 credits/Run''", THEN tl, THEN conjunct1, THEN mp, OF h2]
  have c2: "cache (complete sample_runtime 0 (Resolved ?good) queried_once) 7 = Some ?wrote"
    unfolding s2 [THEN conjunct1] by (simp add: once)
  have p2: "progress (complete sample_runtime 0 (Resolved ?good) queried_once) 0 = Some (ThenRan False)"
    by (rule s2 [THEN conjunct2])

  have h3: "0 < length (evaluations queried_once) \<and> evaluations queried_once ! 0 = ?ev
      \<and> progress queried_once 0 = None
      \<and> (Rejected JUndefined = Rejected JUndefined
          \<or> Rejected JUndefined = Resolved unprintable_result
             \<and> formatPricingResult sample_runtime unprintable_result
                  (case result_defaults (ev_rule ?ev) of None \<Rightarrow> noOptions | Some d \<Rightarrow> d)
                = Inl TypeError)"
    by (simp add: once)
  note s3 = completion_writes_desired_signature_only
    [where k = 0 and st = queried_once and ev = ?ev and rt = sample_runtime
       and out = "Rejected JUndefined" and err = JUndefined and res = unprintable_result,
     THEN tl, THEN tl, THEN conjunct1, THEN mp, OF h3]
  have c3: "cache (complete sample_runtime 0 (Rejected JUndefined) queried_once) 7 = None"
    unfolding s3 [THEN conjunct1] by (fact once(7))
  have p3: "progress (complete sample_runtime 0 (Rejected JUndefined) queried_once) 0
              = Some (ThenRan True)"
    by (rule s3 [THEN conjunct2])

  have h4: "0 < length (evaluations queried_once) \<and> evaluations queried_once ! 0 = ?ev
      \<and> progress queried_once 0 = None
      \<and> (Resolved unprintable_result = Rejected JUndefined
          \<or> Resolved unprintable_result = Resolved unprintable_result
             \<and> formatPricingResult sample_runtime unprintable_result
                  (case result_defaults (ev_rule ?ev) of None \<Rightarrow> noOptions | Some d \<Rightarrow> d)
                = Inl TypeError)"
    by (simp add: once raised)
  note s4 = completion_writes_desired_signature_only
    [where k = 0 and st = queried_once and ev = ?ev and rt = sample_runtime
       and out = "Resolved unprintable_result" and err = JUndefined and res = unprintable_result,
     THEN tl, THEN tl, THEN conjunct1, THEN mp, OF h4]
  have c4: "cache (complete sample_runtime 0 (Resolved unprintable_result) queried_once) 7 = None"
    unfolding s4 [THEN conjunct1] by (fact once(7))
  have p4: "progress (complete sample_runtime 0 (Resolved unprintable_result) queried_once) 0
              = Some (ThenRan True)"
    by (rule s4 [THEN conjunct2])

  let ?thrown = "complete sample_runtime 0 (Resolved unprintable_result) queried_once"
  have thrown: "evaluations ?thrown \<noteq> []"
    "ev_node (evaluations ?thrown ! 0) = 7"
    "ev_sig (evaluations ?thrown ! 0) = ''w:model=a|i:image=0''"
    "desiredSig ?thrown 7 = Some ''w:model=a|i:image=0''"
    by code_simp+
  have h5: "0 < length (evaluations ?thrown) \<and> evaluations ?thrown ! 0 = evaluations ?thrown ! 0
      \<and> progress ?thrown 0 = Some (ThenRan True)
      \<and> desiredSig ?thrown (ev_node (evaluations ?thrown ! 0))
          = Some (ev_sig (evaluations ?thrown ! 0))"
    by (simp add: thrown p4 once)
  note s5 = completion_writes_desired_signature_only
    [where k = 0 and st = ?thrown and ev = "evaluations ?thrown ! 0",
     THEN tl, THEN tl, THEN tl, THEN conjunct1, THEN mp, OF h5]
  have c5: "cache (runCatch 0 ?thrown) 7 = Some \<lparr>c_sig = ''w:model=a|i:image=0'', c_label = JStr []\<rparr>"
    unfolding s5 by (simp add: thrown)

  let ?late = "complete sample_runtime 0 (Rejected JUndefined) queried_twice"
  have late: "evaluations ?late \<noteq> []"
    "progress ?late 0 = Some (ThenRan True)"
    "ev_node (evaluations ?late ! 0) = 7"
    "ev_sig (evaluations ?late ! 0) = ''w:model=a|i:image=0''"
    "desiredSig ?late 7 = Some ''w:model=b|i:image=0''"
    "cache ?late 7 = None"
    by code_simp+
  have h6: "0 < length (evaluations ?late) \<and> evaluations ?late ! 0 = evaluations ?late ! 0
      \<and> progress ?late 0 = Some (ThenRan True)
      \<and> desiredSig ?late (ev_node (evaluations ?late ! 0)) \<noteq> Some (ev_sig (evaluations ?late ! 0))"
    by (simp add: late twice)
  note s6 = completion_writes_desired_signature_only
    [where k = 0 and st = ?late and ev = "evaluations ?late ! 0",
     THEN tl, THEN tl, THEN tl, THEN tl, THEN conjunct1, THEN mp, OF h6]
  have c6: "cache (runCatch 0 ?late) 7 = None"
    unfolding s6 by (fact late(6))

  let ?done = "complete sample_runtime 0 (Resolved ?good) queried_once"
  note s7 = completion_writes_desired_signature_only
    [where k = 0 and st = ?done,
     THEN tl, THEN tl, THEN tl, THEN tl, THEN tl, THEN conjunct1, THEN mp, OF p2]
  have c7: "cache (runCatch 0 ?done) 7 = Some ?wrote"
    unfolding s7 by (fact c2)

  have written: "cache (step sample_table sample_runtime (Settle 0 (Resolved ?good)) queried_once) 7
                   = Some ?wrote
      \<and> cache (step sample_table sample_runtime (Settle 0 (Resolved ?good)) queried_once) 7
          \<noteq> cache queried_once 7"
    using c2 by (simp add: step_jobs once)
  note s8 = completion_writes_desired_signature_only
    [where table = sample_table and rt = sample_runtime and e = "Settle 0 (Resolved ?good)"
       and st = queried_once and m = 7 and entry = ?wrote,
     THEN tl, THEN tl, THEN tl, THEN tl, THEN tl, THEN tl, THEN tl, THEN tl, THEN mp, OF written]
  have c8: "desiredSig queried_once 7 = Some ''w:model=a|i:image=0''"
    using s8 [THEN conjunct1] by simp

  show ?thesis
    by (intro conjI) (fact c1 c2 c3 p3 c4 p4 c5 c6 c7 c8)+
qed

section \<open>Nodes that are not API nodes\<close>

text \<open>
  C10. A node whose \<^verbatim>\<open>nodeData\<close> is missing, or whose \<^verbatim>\<open>api_node\<close> is missing or
  false, gets the empty string, nothing is raised, and the module state is exactly what it
  was: no desired signature, cache entry or in-flight record is written and no evaluation
  is started, whatever the rule table holds for the node's type name and whatever the
  node's widgets hold.
\<close>

theorem non_api_node_untouched:
  assumes "(case nodeData node of None \<Rightarrow> None | Some nd \<Rightarrow> api_node nd) \<noteq> Some True"
  shows "getNodeDisplayPrice table rt node st = Inr (JStr [], st)"
  using assms by (simp add: getNodeDisplayPrice_def)

theorem non_api_node_untouched_witness:
  "getRuleForNode sample_table plain_node = Some sample_rule
   \<and> getNodeDisplayPrice sample_table sample_runtime plain_node queried_once
       = Inr (JStr [], queried_once)"
proof -
  have flag: "(case nodeData plain_node of None \<Rightarrow> None | Some nd \<Rightarrow> api_node nd) \<noteq> Some True"
    by (simp add: plain_node_def)
  have rule: "getRuleForNode sample_table plain_node = Some sample_rule"
    by (simp add: getRuleForNode_def plain_node_def sample_table_def)
  from rule non_api_node_untouched [OF flag, of sample_table sample_runtime queried_once]
  show ?thesis by (rule conjI)
qed

section \<open>Coalescing and the in-flight record\<close>

lemma run_Nil [simp]: "run table rt [] st = st"
  by (simp add: run_def)

lemma run_Cons [simp]: "run table rt (e # evs) st = run table rt evs (step table rt e st)"
  by (simp add: run_def)

lemma run_snoc [simp]: "run table rt (evs @ [e]) st = step table rt e (run table rt evs st)"
  by (simp add: run_def)



















section \<open>The fast path\<close>

text \<open>A query that finds the cache entry of the current signature changes nothing.\<close>

lemma fast_path_state:
  assumes "(case nodeData node of None \<Rightarrow> None | Some nd \<Rightarrow> api_node nd) = Some True"
    and "getRuleForNode table node = Some rule"
    and "engine rule = ''jsonata''" and "compiled rule \<noteq> None"
    and "cache st (node_id node) = Some cached"
    and "nodeSignature rt node rule = Inr (c_sig cached)"
  shows "getNodeDisplayPrice table rt node st = Inr (c_label cached, st)"
  using assms
  by (auto simp: getNodeDisplayPrice_def nodeSignature_def andThen_def Let_def split: sum.splits)

text \<open>
  C2 does not hold of the code: the fast path returns the cached label and records
  nothing. With the label of model \<^verbatim>\<open>a\<close> cached and the evaluation for model \<^verbatim>\<open>b\<close>
  pending, a query of the node back at model \<^verbatim>\<open>a\<close> is served from the cache and the
  desired signature stays that of \<^verbatim>\<open>b\<close>. The pending evaluation is then accepted when
  it resolves: the cache holds the label of \<^verbatim>\<open>b\<close> while the node is at \<^verbatim>\<open>a\<close>, the next
  query returns that label and starts a third evaluation.
\<close>

theorem fast_path_keeps_stale_desired_signature:
  "map_sum id fst
     (getNodeDisplayPrice sample_table sample_runtime (sample_node (JStr ''a'')) cached_a_pending_b)
     = Inr (JStr ''8 credits/Run'')
   \<and> nodeSignature sample_runtime (sample_node (JStr ''a'')) sample_rule
     = Inr ''w:model=a|i:image=0''
   \<and> map_sum id (\<lambda>r. desiredSig (snd r) 7)
       (getNodeDisplayPrice sample_table sample_runtime (sample_node (JStr ''a'')) cached_a_pending_b)
     = Inr (Some ''w:model=b|i:image=0'')
   \<and> cache (run sample_table sample_runtime
              (Query (sample_node (JStr ''a'')) # settles 1 (Resolved (usd_result (1 / 10))))
              cached_a_pending_b) 7
     = Some \<lparr>c_sig = ''w:model=b|i:image=0'', c_label = JStr ''21 credits/Run''\<rparr>
   \<and> map_sum id fst
       (getNodeDisplayPrice sample_table sample_runtime (sample_node (JStr ''a''))
          (run sample_table sample_runtime
             (Query (sample_node (JStr ''a'')) # settles 1 (Resolved (usd_result (1 / 10))))
             cached_a_pending_b))
     = Inr (JStr ''21 credits/Run'')
   \<and> length (evaluations (run sample_table sample_runtime
              (Query (sample_node (JStr ''a'')) # settles 1 (Resolved (usd_result (1 / 10)))
               @ [Query (sample_node (JStr ''a''))])
              cached_a_pending_b)) = 3"
  by code_simp

section \<open>Failure containment\<close>

text \<open>Under an evaluator that always fails, every label in the cache is the empty string.\<close>

lemma emptyLabels_step:
  assumes "emptyLabels st" and "\<forall>k res. e \<noteq> Settle k (Resolved res)"
  shows "emptyLabels (step table rt e st)"
proof (cases e)
  case (Query node)
  with assms show ?thesis by (simp add: emptyLabels_def)
next
  case (Settle k out)
  with assms(2) obtain err where "out = Rejected err" by (cases out) auto
  with Settle assms(1) show ?thesis
    by (simp add: emptyLabels_def step_jobs complete_cache thenJob_cache)
next
  case (RunCatch k)
  with assms show ?thesis
    by (auto simp: emptyLabels_def step_jobs runCatch_cache split: if_splits)
next
  case (RunFinally k)
  with assms show ?thesis by (simp add: emptyLabels_def step_jobs)
qed

lemma emptyLabels_run:
  assumes "alwaysRejected evs" and "emptyLabels st"
  shows "emptyLabels (run table rt evs st)"
  using assms
proof (induction evs arbitrary: st)
  case Nil
  then show ?case by simp
next
  case (Cons e evs)
  from Cons.prems(1) have e: "\<forall>k res. e \<noteq> Settle k (Resolved res)"
    and rest: "alwaysRejected evs"
    by (auto simp: alwaysRejected_def)
  from Cons.IH [OF rest emptyLabels_step [OF Cons.prems(2) e]] show ?case by simp
qed

text \<open>So a query then returns the empty string, whenever it returns.\<close>

lemma failing_evaluator_empty_label:
  assumes "alwaysRejected evs"
    and "getNodeDisplayPrice table rt node (run table rt evs initial_state) = Inr (label, st1)"
  shows "label = JStr []"
proof -
  have "emptyLabels (run table rt evs initial_state)"
    using assms(1) by (rule emptyLabels_run) (simp add: emptyLabels_def initial_state_def)
  with assms(2) show ?thesis
    by (auto simp: getNodeDisplayPrice_def emptyLabels_def Let_def
        split: option.splits if_splits sum.splits)
qed

text \<open>
  C4 does not hold of the code, on three counts. A query raises when the value of a
  declared widget cannot be converted to a string: \<^verbatim>\<open>normalizeWidgetValue\<close> applies
  \<^verbatim>\<open>String\<close> to it and nothing catches the \<^verbatim>\<open>TypeError\<close>. A query returns a number when
  the evaluator resolved a result of type \<^verbatim>\<open>text\<close> whose text is a number: the formatter
  passes the text on unchecked. And an evaluator that always fails is invoked again for a
  signature that has not changed: in the run below the node is queried at \<^verbatim>\<open>a\<close>, at
  \<^verbatim>\<open>b\<close> and at \<^verbatim>\<open>a\<close> again, which starts the evaluations 0, 1 and 2; the job of the
  \<^verbatim>\<open>.finally\<close> link of evaluation 0 then deletes the in-flight record of evaluation 2,
  which carries the same signature, so that the next query, the node still at \<^verbatim>\<open>a\<close>,
  starts evaluation 3 for the signature of evaluation 2. Every query of that run returns
  the empty string.
\<close>

theorem failure_containment_fails:
  "map_sum id fst
     (getNodeDisplayPrice sample_table sample_runtime (sample_node unprintable) initial_state)
     = Inl TypeError
   \<and> map_sum id fst
       (getNodeDisplayPrice sample_table sample_runtime (sample_node (JStr ''a''))
          (run sample_table sample_runtime
             (Query (sample_node (JStr ''a'')) # settles 0 (Resolved number_text_result))
             initial_state))
     = Inr (JNum (Finite 5))
   \<and> \<not> isString (JNum (Finite 5))
   \<and> alwaysRejected failing_run
   \<and> failing_run = butlast failing_run @ [Query (sample_node (JStr ''a''))]
   \<and> run sample_table sample_runtime (butlast failing_run) initial_state = orphaned
   \<and> map ev_sig (evaluationsOf 7 orphaned)
       = [''w:model=a|i:image=0'', ''w:model=b|i:image=0'', ''w:model=a|i:image=0'']
   \<and> progress orphaned 2 = None
   \<and> map_sum id fst
       (getNodeDisplayPrice sample_table sample_runtime (sample_node (JStr ''a'')) orphaned)
     = Inr (JStr [])
   \<and> map ev_sig (evaluationsOf 7 (run sample_table sample_runtime failing_run initial_state))
       = [''w:model=a|i:image=0'', ''w:model=b|i:image=0'', ''w:model=a|i:image=0'',
          ''w:model=a|i:image=0'']"
proof -
  have raised: "map_sum id fst
     (getNodeDisplayPrice sample_table sample_runtime (sample_node unprintable) initial_state)
     = Inl TypeError"
    by code_simp
  have number: "map_sum id fst
       (getNodeDisplayPrice sample_table sample_runtime (sample_node (JStr ''a''))
          (run sample_table sample_runtime
             (Query (sample_node (JStr ''a'')) # settles 0 (Resolved number_text_result))
             initial_state))
     = Inr (JNum (Finite 5))"
    by code_simp
  have not_string: "\<not> isString (JNum (Finite 5))"
    by (simp add: isString_def)
  have failing: "alwaysRejected failing_run"
    by (simp add: alwaysRejected_def failing_run_def)
  have last: "failing_run = butlast failing_run @ [Query (sample_node (JStr ''a''))]"
    by (simp add: failing_run_def)
  have before: "run sample_table sample_runtime (butlast failing_run) initial_state = orphaned"
    by (simp add: failing_run_def orphaned_def)
  have three: "map ev_sig (evaluationsOf 7 orphaned)
       = [''w:model=a|i:image=0'', ''w:model=b|i:image=0'', ''w:model=a|i:image=0'']"
    by code_simp
  have unsettled: "progress orphaned 2 = None"
    by code_simp
  have empty: "map_sum id fst
       (getNodeDisplayPrice sample_table sample_runtime (sample_node (JStr ''a'')) orphaned)
     = Inr (JStr [])"
    by code_simp
  have four: "map ev_sig (evaluationsOf 7 (run sample_table sample_runtime failing_run initial_state))
       = [''w:model=a|i:image=0'', ''w:model=b|i:image=0'', ''w:model=a|i:image=0'',
          ''w:model=a|i:image=0'']"
    by code_simp
  show ?thesis
    by (intro conjI) (fact raised number not_string failing last before three unsettled empty four)+
qed

end
